theory Spec2Isabelle
  imports Complex_Main
begin

section \<open>Python strings\<close>

text \<open>
  A Python \<open>str\<close> is a sequence of code points. A \<^typ>\<open>string\<close> here is read as a text
  whose code points are all below 256, one \<^typ>\<open>char\<close> per code point; texts with
  larger code points are outside the model. On that range the predicates below are
  those of CPython: \<open>str.isspace\<close> holds of the code points 9-13, 28-32, 133 and 160,
  \<open>str.isdigit\<close> holds of \<open>0\<close>-\<open>9\<close> and of the superscript digits 178, 179 and 185, and
  the pattern \<open>\d\<close> of the module \<open>re\<close> matches \<open>0\<close>-\<open>9\<close> only.
\<close>

definition py_isspace :: "char \<Rightarrow> bool" where
  "py_isspace c = (of_char c \<in> {9, 10, 11, 12, 13, 28, 29, 30, 31, 32, 133, 160 :: nat})"

definition re_digit :: "char \<Rightarrow> bool" where
  "re_digit c = (48 \<le> (of_char c :: nat) \<and> (of_char c :: nat) \<le> 57)"

definition py_isdigit :: "char \<Rightarrow> bool" where
  "py_isdigit c = (re_digit c \<or> of_char c \<in> {178, 179, 185 :: nat})"

text \<open>\<open>s.isdigit()\<close>: false on the empty string.\<close>

definition isdigit :: "string \<Rightarrow> bool" where
  "isdigit s = (s \<noteq> [] \<and> list_all py_isdigit s)"

text \<open>\<open>s.strip()\<close>\<close>

definition strip :: "string \<Rightarrow> string" where
  "strip s = rev (dropWhile py_isspace (rev (dropWhile py_isspace s)))"

text \<open>\<open>s.split()\<close>: the maximal runs of non-whitespace, in order.\<close>

fun split_ws_aux :: "string \<Rightarrow> string \<Rightarrow> string list" where
  "split_ws_aux cur [] = (if cur = [] then [] else [rev cur])"
| "split_ws_aux cur (c # cs) =
     (if py_isspace c
      then (if cur = [] then split_ws_aux [] cs else rev cur # split_ws_aux [] cs)
      else split_ws_aux (c # cur) cs)"

definition split_ws :: "string \<Rightarrow> string list" where
  "split_ws s = split_ws_aux [] s"

text \<open>\<open>p in s\<close> on strings.\<close>

definition startswith :: "string \<Rightarrow> string \<Rightarrow> bool" where
  "startswith s p = (take (length p) s = p)"

fun contains :: "string \<Rightarrow> string \<Rightarrow> bool" where
  "contains p [] = (p = [])"
| "contains p (c # cs) = (startswith (c # cs) p \<or> contains p cs)"

text \<open>
  \<open>s.split(sep)\<close> and \<open>s.split(sep, maxsplit)\<close> for a non-empty separator: the text is
  scanned from the left, every occurrence of the separator found cuts a part and the
  scan goes on behind it; with \<open>maxsplit\<close> given, cutting stops after that many cuts.
  The second argument is \<open>None\<close> where the source passes no \<open>maxsplit\<close>.
\<close>

fun split_aux :: "string \<Rightarrow> nat option \<Rightarrow> string \<Rightarrow> string \<Rightarrow> string list" where
  "split_aux sep m cur [] = [rev cur]"
| "split_aux sep m cur (c # cs) =
     (if m \<noteq> Some 0 \<and> startswith (c # cs) sep
      then rev cur # split_aux sep (map_option (\<lambda>k. k - 1) m) [] (drop (length sep - 1) cs)
      else split_aux sep m (c # cur) cs)"

definition split :: "string \<Rightarrow> nat option \<Rightarrow> string \<Rightarrow> string list" where
  "split sep maxsplit s = split_aux sep maxsplit [] s"

text \<open>\<open>s.replace(c, '')\<close> for a one-character \<open>c\<close>.\<close>

definition remove_char :: "char \<Rightarrow> string \<Rightarrow> string" where
  "remove_char c s = filter (\<lambda>x. x \<noteq> c) s"

text \<open>\<open>re.match(r'(\d{4})', s)\<close>: the match exists when the text starts with four digits.\<close>

definition match_year :: "string \<Rightarrow> string option" where
  "match_year s = (if 4 \<le> length s \<and> list_all re_digit (take 4 s) then Some (take 4 s) else None)"

text \<open>
  \<open>re.search(r'\$([\d,]+\.?\d*)', s)\<close>, group 1. The search takes the leftmost dollar
  sign that is followed by a digit or comma; the run of digits and commas is taken
  whole (what follows may match the empty text, so nothing is given back), then a dot if
  one follows, then the digits after the dot.
\<close>

definition digit_or_comma :: "char \<Rightarrow> bool" where
  "digit_or_comma c = (re_digit c \<or> c = CHR '','')"

fun search_price :: "string \<Rightarrow> string option" where
  "search_price [] = None"
| "search_price (c # cs) =
     (if c = CHR ''$'' \<and> takeWhile digit_or_comma cs \<noteq> []
      then Some (takeWhile digit_or_comma cs @
                 (case dropWhile digit_or_comma cs of
                    [] \<Rightarrow> []
                  | d # ds \<Rightarrow> if d = CHR ''.'' then d # takeWhile re_digit ds else []))
      else search_price cs)"

text \<open>
  \<open>float(s)\<close> on the texts that group 1 of the price pattern yields once the commas are
  removed: digits, optionally a dot, optionally digits. Python raises \<open>ValueError\<close>
  when there is no digit at all (\<open>''\<close> and \<open>'.'\<close>), which is \<open>None\<close> here. A float is
  modelled by the real number the text denotes; binary rounding is not modelled.
\<close>

definition digit_val :: "char \<Rightarrow> nat" where
  "digit_val c = of_char c - 48"

definition nat_of_digits :: "string \<Rightarrow> nat" where
  "nat_of_digits s = foldl (\<lambda>n c. 10 * n + digit_val c) 0 s"

definition float_of_decimal :: "string \<Rightarrow> real option" where
  "float_of_decimal s =
     (let ip = takeWhile re_digit s; r = dropWhile re_digit s
      in case r of
           [] \<Rightarrow> if ip = [] then None else Some (real (nat_of_digits ip))
         | d # fr \<Rightarrow>
             if d = CHR ''.'' \<and> list_all re_digit fr \<and> (ip \<noteq> [] \<or> fr \<noteq> [])
             then Some (real (nat_of_digits ip) + real (nat_of_digits fr) / 10 ^ length fr)
             else None)"

text \<open>\<open>str(n)\<close> of an integer.\<close>

fun nat_digits :: "nat \<Rightarrow> string" where
  "nat_digits n =
     (if n < 10 then [''0123456789'' ! n]
      else nat_digits (n div 10) @ [''0123456789'' ! (n mod 10)])"

definition str_int :: "int \<Rightarrow> string" where
  "str_int i = (if i < 0 then CHR ''-'' # nat_digits (nat (- i)) else nat_digits (nat i))"

section \<open>JSON results\<close>

text \<open>
  One entry of the \<open>results\<close> array of the search API is a dictionary from field names
  to JSON values. The scalar values are modelled; arrays and objects as field values are
  outside the model.
\<close>

datatype json = JNull | JBool bool | JInt int | JFloat real | JStr string

type_synonym result = "string \<Rightarrow> json option"

text \<open>\<open>d.get(k, default)\<close> and \<open>d.get(k)\<close>\<close>

definition get_default :: "result \<Rightarrow> string \<Rightarrow> json \<Rightarrow> json" where
  "get_default d k dflt = (case d k of None \<Rightarrow> dflt | Some v \<Rightarrow> v)"

definition get :: "result \<Rightarrow> string \<Rightarrow> json" where
  "get d k = get_default d k JNull"

text \<open>Truth value of a Python object, and \<open>a or b\<close>.\<close>

fun truthy :: "json \<Rightarrow> bool" where
  "truthy JNull = False"
| "truthy (JBool b) = b"
| "truthy (JInt i) = (i \<noteq> 0)"
| "truthy (JFloat r) = (r \<noteq> 0)"
| "truthy (JStr s) = (s \<noteq> [])"

definition py_or :: "json \<Rightarrow> json \<Rightarrow> json" where
  "py_or a b = (if truthy a then a else b)"

text \<open>
  Two builtins of Python are not code of the repository and are not modelled: the shortest
  decimal text \<open>str\<close> gives for a float, and the grammar \<open>float\<close> accepts for a text
  (signs, exponents, underscores, \<open>inf\<close>, \<open>nan\<close>). They are parameters of the model;
  \<open>parse_float\<close> returns \<open>None\<close> where Python raises \<open>ValueError\<close>.
\<close>

record builtins =
  repr_float :: "real \<Rightarrow> string"
  parse_float :: "string \<Rightarrow> real option"

fun str :: "builtins \<Rightarrow> json \<Rightarrow> string" where
  "str py JNull = ''None''"
| "str py (JBool b) = (if b then ''True'' else ''False'')"
| "str py (JInt i) = str_int i"
| "str py (JFloat r) = repr_float py r"
| "str py (JStr s) = s"

text \<open>
  \<open>float(v)\<close>; \<open>None\<close> is the \<open>ValueError\<close> of a text that is no number. Floats are
  modelled by real numbers: the rounding of a large integer and the \<open>OverflowError\<close> of
  a huge one are not modelled.
\<close>

fun float :: "builtins \<Rightarrow> json \<Rightarrow> real option" where
  "float py (JBool b) = Some (if b then 1 else 0)"
| "float py (JInt i) = Some (real_of_int i)"
| "float py (JFloat r) = Some r"
| "float py (JStr s) = parse_float py s"
| "float py JNull = None"

section \<open>Canonical records and rejections\<close>

text \<open>
  Every extractor of the repository returns the dictionary of a stamp or \<open>None\<close>. The model
  returns a sum: \<open>Inr\<close> the stamp, \<open>Inl\<close> a rejection that names the place of the
  \<open>return None\<close>, after the gates of the normalizer: the identifier gate
  (\<open>NoIdentifier\<close>, \<open>Duplicate\<close>), the image gate, the catalog-number gate, the title gate
  (\<open>NoYear\<close>, also when the title or its delimiter is missing; \<open>NoCountry\<close>), the price
  gate, and \<open>ExtractionError\<close> for the \<open>except Exception\<close> handler around the body.
  The second component of each result is the set \<open>scraped_ids\<close> after the call.
\<close>

datatype rejection =
  NoIdentifier | Duplicate | NoImage | InvalidCatalogNumber | NoYear | NoCountry
  | NoPrice | ExtractionError

record stamp =
  product_id :: string
  image_url :: string
  stamp_number :: string
  year :: string
  country :: string
  price :: real

definition placeholder :: string where
  "placeholder = ''new-image-coming-soon.jpg''"

section \<open>The JSON normalizer of the plain API scraper\<close>

text \<open>\<open>StampAPIScraper.is_valid_stamp_number\<close>; the HTML scraper has the same function.\<close>

definition is_valid_stamp_number :: "string \<Rightarrow> bool" where
  "is_valid_stamp_number stamp_number_text =
     (let parts = split_ws (strip stamp_number_text)
      in if parts = [] then False else isdigit (last parts))"

text \<open>
  \<open>StampAPIScraper.extract_stamp_data\<close>. A field value of the wrong type raises inside
  the body (\<open>in\<close> on a number, \<open>strip\<close> or \<open>split\<close> on a non-string), which the
  handler turns into \<open>None\<close>.
\<close>

definition extract_stamp_data ::
  "builtins \<Rightarrow> result \<Rightarrow> string set \<Rightarrow> (rejection + stamp) \<times> string set" where
  "extract_stamp_data py result scraped_ids =
     (let pid = str py (py_or (get_default result ''uid'' (JStr [])) (get_default result ''id'' (JStr [])));
          image = py_or (get_default result ''imageUrl'' (JStr []))
                        (get_default result ''thumbnailImageUrl'' (JStr []));
          sku = get_default result ''sku'' (JStr []);
          title = get_default result ''name'' (JStr []);
          price_field = py_or (get result ''price'') (get result ''ss_price'')
      in if pid = [] then (Inl NoIdentifier, scraped_ids)
         else if pid \<in> scraped_ids then (Inl Duplicate, scraped_ids)
         else if \<not> truthy image then (Inl NoImage, scraped_ids)
         else case image of
           JStr image_url' \<Rightarrow>
             if contains placeholder image_url' then (Inl NoImage, scraped_ids)
             else if \<not> truthy sku then (Inl InvalidCatalogNumber, scraped_ids)
             else (case sku of
               JStr stamp_number_text \<Rightarrow>
                 if \<not> is_valid_stamp_number stamp_number_text
                 then (Inl InvalidCatalogNumber, scraped_ids)
                 else if \<not> truthy title then (Inl NoYear, scraped_ids)
                 else (case title of
                   JStr title' \<Rightarrow>
                     (let parts = split '' - '' None title'
                      in if length parts < 2 then (Inl NoYear, scraped_ids)
                         else (let year_country = strip (parts ! 1)
                               in case match_year year_country of
                                    None \<Rightarrow> (Inl NoYear, scraped_ids)
                                  | Some year' \<Rightarrow>
                                      (let country' = strip (drop 4 year_country)
                                       in if country' = [] then (Inl NoCountry, scraped_ids)
                                          else if price_field = JNull then (Inl NoPrice, scraped_ids)
                                          else (case float py price_field of
                                                  None \<Rightarrow> (Inl NoPrice, scraped_ids)
                                                | Some price' \<Rightarrow>
                                                    (Inr \<lparr>product_id = pid, image_url = image_url',
                                                          stamp_number = stamp_number_text,
                                                          year = year', country = country',
                                                          price = price'\<rparr>,
                                                     insert pid scraped_ids)))))
                 | _ \<Rightarrow> (Inl ExtractionError, scraped_ids))
             | _ \<Rightarrow> (Inl ExtractionError, scraped_ids))
         | _ \<Rightarrow> (Inl ExtractionError, scraped_ids))"

section \<open>The JSON normalizers of the partitioned API scrapers\<close>

text \<open>
  \<open>StampAPISegmentedScraper.extract_stamp_data\<close>. It differs from the plain one in the
  title gate (the delimiter is tested first and the title is split once) and in the
  price gate (only \<open>price\<close> is read, and a failing \<open>float\<close> reaches the handler).
\<close>

definition extract_stamp_data_segmented ::
  "builtins \<Rightarrow> result \<Rightarrow> string set \<Rightarrow> (rejection + stamp) \<times> string set" where
  "extract_stamp_data_segmented py result scraped_ids =
     (let pid = str py (py_or (get_default result ''uid'' (JStr [])) (get_default result ''id'' (JStr [])));
          image = py_or (get_default result ''imageUrl'' (JStr []))
                        (get_default result ''thumbnailImageUrl'' (JStr []));
          sku = get_default result ''sku'' (JStr []);
          title = get_default result ''name'' (JStr []);
          price_field = get result ''price''
      in if pid = [] then (Inl NoIdentifier, scraped_ids)
         else if pid \<in> scraped_ids then (Inl Duplicate, scraped_ids)
         else if \<not> truthy image then (Inl NoImage, scraped_ids)
         else case image of
           JStr image_url' \<Rightarrow>
             if contains placeholder image_url' then (Inl NoImage, scraped_ids)
             else if \<not> truthy sku then (Inl InvalidCatalogNumber, scraped_ids)
             else (case sku of
               JStr stamp_number_text \<Rightarrow>
                 if \<not> is_valid_stamp_number stamp_number_text
                 then (Inl InvalidCatalogNumber, scraped_ids)
                 else if \<not> truthy title then (Inl NoYear, scraped_ids)
                 else (case title of
                   JStr title' \<Rightarrow>
                     if \<not> contains '' - '' title' then (Inl NoYear, scraped_ids)
                     else
                     (let parts = split '' - '' (Some 1) title'
                      in if length parts < 2 then (Inl NoYear, scraped_ids)
                         else (let year_country = strip (parts ! 1)
                               in case match_year year_country of
                                    None \<Rightarrow> (Inl NoYear, scraped_ids)
                                  | Some year' \<Rightarrow>
                                      (let country' = strip (drop 4 year_country)
                                       in if country' = [] then (Inl NoCountry, scraped_ids)
                                          else if price_field = JNull then (Inl NoPrice, scraped_ids)
                                          else (case float py price_field of
                                                  None \<Rightarrow> (Inl ExtractionError, scraped_ids)
                                                | Some price' \<Rightarrow>
                                                    (Inr \<lparr>product_id = pid, image_url = image_url',
                                                          stamp_number = stamp_number_text,
                                                          year = year', country = country',
                                                          price = price'\<rparr>,
                                                     insert pid scraped_ids)))))
                 | _ \<Rightarrow> (Inl ExtractionError, scraped_ids))
             | _ \<Rightarrow> (Inl ExtractionError, scraped_ids))
         | _ \<Rightarrow> (Inl ExtractionError, scraped_ids))"

text \<open>
  \<open>StampAPICategoryScraper.extract_stamp_data\<close> and
  \<open>StampAPIUSConditionScraper.extract_stamp_data\<close> are the segmented extractor, gate for
  gate, with one more argument that is stored in the returned dictionary under
  \<open>category\<close> or \<open>condition\<close>.
\<close>

record category_stamp = stamp +
  category :: string

record condition_stamp = stamp +
  condition :: string

definition extract_stamp_data_category ::
  "builtins \<Rightarrow> result \<Rightarrow> string \<Rightarrow> string set \<Rightarrow> (rejection + category_stamp) \<times> string set" where
  "extract_stamp_data_category py result category' scraped_ids =
     (let pid = str py (py_or (get_default result ''uid'' (JStr [])) (get_default result ''id'' (JStr [])));
          image = py_or (get_default result ''imageUrl'' (JStr []))
                        (get_default result ''thumbnailImageUrl'' (JStr []));
          sku = get_default result ''sku'' (JStr []);
          title = get_default result ''name'' (JStr []);
          price_field = get result ''price''
      in if pid = [] then (Inl NoIdentifier, scraped_ids)
         else if pid \<in> scraped_ids then (Inl Duplicate, scraped_ids)
         else if \<not> truthy image then (Inl NoImage, scraped_ids)
         else case image of
           JStr image_url' \<Rightarrow>
             if contains placeholder image_url' then (Inl NoImage, scraped_ids)
             else if \<not> truthy sku then (Inl InvalidCatalogNumber, scraped_ids)
             else (case sku of
               JStr stamp_number_text \<Rightarrow>
                 if \<not> is_valid_stamp_number stamp_number_text
                 then (Inl InvalidCatalogNumber, scraped_ids)
                 else if \<not> truthy title then (Inl NoYear, scraped_ids)
                 else (case title of
                   JStr title' \<Rightarrow>
                     if \<not> contains '' - '' title' then (Inl NoYear, scraped_ids)
                     else
                     (let parts = split '' - '' (Some 1) title'
                      in if length parts < 2 then (Inl NoYear, scraped_ids)
                         else (let year_country = strip (parts ! 1)
                               in case match_year year_country of
                                    None \<Rightarrow> (Inl NoYear, scraped_ids)
                                  | Some year' \<Rightarrow>
                                      (let country' = strip (drop 4 year_country)
                                       in if country' = [] then (Inl NoCountry, scraped_ids)
                                          else if price_field = JNull then (Inl NoPrice, scraped_ids)
                                          else (case float py price_field of
                                                  None \<Rightarrow> (Inl ExtractionError, scraped_ids)
                                                | Some price' \<Rightarrow>
                                                    (Inr \<lparr>product_id = pid, image_url = image_url',
                                                          stamp_number = stamp_number_text,
                                                          year = year', country = country',
                                                          price = price', category = category'\<rparr>,
                                                     insert pid scraped_ids)))))
                 | _ \<Rightarrow> (Inl ExtractionError, scraped_ids))
             | _ \<Rightarrow> (Inl ExtractionError, scraped_ids))
         | _ \<Rightarrow> (Inl ExtractionError, scraped_ids))"

definition extract_stamp_data_condition ::
  "builtins \<Rightarrow> result \<Rightarrow> string \<Rightarrow> string set \<Rightarrow> (rejection + condition_stamp) \<times> string set" where
  "extract_stamp_data_condition py result condition' scraped_ids =
     (let pid = str py (py_or (get_default result ''uid'' (JStr [])) (get_default result ''id'' (JStr [])));
          image = py_or (get_default result ''imageUrl'' (JStr []))
                        (get_default result ''thumbnailImageUrl'' (JStr []));
          sku = get_default result ''sku'' (JStr []);
          title = get_default result ''name'' (JStr []);
          price_field = get result ''price''
      in if pid = [] then (Inl NoIdentifier, scraped_ids)
         else if pid \<in> scraped_ids then (Inl Duplicate, scraped_ids)
         else if \<not> truthy image then (Inl NoImage, scraped_ids)
         else case image of
           JStr image_url' \<Rightarrow>
             if contains placeholder image_url' then (Inl NoImage, scraped_ids)
             else if \<not> truthy sku then (Inl InvalidCatalogNumber, scraped_ids)
             else (case sku of
               JStr stamp_number_text \<Rightarrow>
                 if \<not> is_valid_stamp_number stamp_number_text
                 then (Inl InvalidCatalogNumber, scraped_ids)
                 else if \<not> truthy title then (Inl NoYear, scraped_ids)
                 else (case title of
                   JStr title' \<Rightarrow>
                     if \<not> contains '' - '' title' then (Inl NoYear, scraped_ids)
                     else
                     (let parts = split '' - '' (Some 1) title'
                      in if length parts < 2 then (Inl NoYear, scraped_ids)
                         else (let year_country = strip (parts ! 1)
                               in case match_year year_country of
                                    None \<Rightarrow> (Inl NoYear, scraped_ids)
                                  | Some year' \<Rightarrow>
                                      (let country' = strip (drop 4 year_country)
                                       in if country' = [] then (Inl NoCountry, scraped_ids)
                                          else if price_field = JNull then (Inl NoPrice, scraped_ids)
                                          else (case float py price_field of
                                                  None \<Rightarrow> (Inl ExtractionError, scraped_ids)
                                                | Some price' \<Rightarrow>
                                                    (Inr \<lparr>product_id = pid, image_url = image_url',
                                                          stamp_number = stamp_number_text,
                                                          year = year', country = country',
                                                          price = price', condition = condition'\<rparr>,
                                                     insert pid scraped_ids)))))
                 | _ \<Rightarrow> (Inl ExtractionError, scraped_ids))
             | _ \<Rightarrow> (Inl ExtractionError, scraped_ids))
         | _ \<Rightarrow> (Inl ExtractionError, scraped_ids))"

section \<open>The HTML normalizer\<close>

text \<open>
  A listing of the HTML scraper is a parsed \<open>li\<close> element. The record holds what the
  lookups of \<open>StampScraper.extract_stamp_data\<close> return on it:
  \<^item> \<open>data_product_id\<close>: \<open>listing.get('data-product-id')\<close>, \<open>None\<close> without the attribute;
  \<^item> \<open>img_tag\<close>: \<open>listing.find('img', class_='card-image')\<close>, \<open>None\<close> without such a tag,
    else its \<open>src\<close> attribute, if any;
  \<^item> \<open>stamp_number_tag\<close>: the text \<open>get_text(strip=True)\<close> of the \<open>a.StampNumber\<close> tag;
  \<^item> \<open>title_tag\<close>: the \<open>a.card-ellipsis\<close> tag, \<open>None\<close> without it, else the text of its
    \<open>span\<close>, if any;
  \<^item> \<open>price_tag\<close>: the text of the \<open>span.price--withoutTax\<close> tag.
\<close>

record listing =
  data_product_id :: "string option"
  img_tag :: "string option option"
  stamp_number_tag :: "string option"
  title_tag :: "string option option"
  price_tag :: "string option"

text \<open>
  \<open>StampScraper.extract_stamp_data\<close>. A price text whose group has no digit makes
  \<open>float\<close> raise, which the handler turns into \<open>None\<close>.
\<close>

definition extract_stamp_data_html ::
  "listing \<Rightarrow> string set \<Rightarrow> (rejection + stamp) \<times> string set" where
  "extract_stamp_data_html listing scraped_ids =
     (case data_product_id listing of
        None \<Rightarrow> (Inl NoIdentifier, scraped_ids)
      | Some pid \<Rightarrow>
          if pid = [] then (Inl NoIdentifier, scraped_ids)
          else if pid \<in> scraped_ids then (Inl Duplicate, scraped_ids)
          else (case img_tag listing of
             None \<Rightarrow> (Inl NoImage, scraped_ids)
           | Some src \<Rightarrow>
               (let image_url' = (case src of None \<Rightarrow> [] | Some u \<Rightarrow> u)
                in if contains placeholder image_url' then (Inl NoImage, scraped_ids)
                   else (case stamp_number_tag listing of
                      None \<Rightarrow> (Inl InvalidCatalogNumber, scraped_ids)
                    | Some stamp_number_text \<Rightarrow>
                        if \<not> is_valid_stamp_number stamp_number_text
                        then (Inl InvalidCatalogNumber, scraped_ids)
                        else (case title_tag listing of
                           None \<Rightarrow> (Inl NoYear, scraped_ids)
                         | Some None \<Rightarrow> (Inl NoYear, scraped_ids)
                         | Some (Some title_text) \<Rightarrow>
                             (case match_year title_text of
                                None \<Rightarrow> (Inl NoYear, scraped_ids)
                              | Some year' \<Rightarrow>
                                  (let country' = strip (drop 4 title_text)
                                   in case price_tag listing of
                                        None \<Rightarrow> (Inl NoPrice, scraped_ids)
                                      | Some price_text \<Rightarrow>
                                          (case search_price price_text of
                                             None \<Rightarrow> (Inl NoPrice, scraped_ids)
                                           | Some g \<Rightarrow>
                                               (case float_of_decimal (remove_char CHR '','' g) of
                                                  None \<Rightarrow> (Inl ExtractionError, scraped_ids)
                                                | Some price' \<Rightarrow>
                                                    (Inr \<lparr>product_id = pid, image_url = image_url',
                                                          stamp_number = stamp_number_text,
                                                          year = year', country = country',
                                                          price = price'\<rparr>,
                                                     insert pid scraped_ids))))))))))"

section \<open>The product-page normalizer\<close>

text \<open>
  The product-page scraper reads the page the browser shows. The record holds what the
  lookups of \<open>StampProductScraper.extract_product_data\<close> find; \<open>None\<close> is an element that
  is not on the page (\<open>find_element\<close> raises), and an attribute is \<open>None\<close> when the
  element does not have it:
  \<^item> \<open>next_products_div\<close>: the \<open>data-product-id\<close> attribute of \<open>div.productView-nextProducts\<close>;
  \<^item> \<open>zoom_img\<close>, \<open>presentation_img\<close>: the attributes \<open>src\<close> and \<open>data-zoombaimage\<close> of
    \<open>img.zoomImg\<close> and of \<open>img[role="presentation"]\<close>;
  \<^item> \<open>h1_title\<close>, \<open>h6_title\<close>, \<open>price_element\<close>: the \<open>text\<close> of \<open>h1.productView-title\<close>,
    \<open>h6.productView-title\<close> and \<open>span.price--withoutTax\<close>.
\<close>

record product_page =
  next_products_div :: "string option option"
  zoom_img :: "(string option \<times> string option) option"
  presentation_img :: "(string option \<times> string option) option"
  h1_title :: "string option"
  h6_title :: "string option"
  price_element :: "string option"

text \<open>\<open>StampProductScraper.is_valid_stamp_number\<close>\<close>

definition is_valid_stamp_number_page :: "string \<Rightarrow> bool" where
  "is_valid_stamp_number_page number_text = isdigit (strip (remove_char CHR ''#'' number_text))"

text \<open>\<open>src\<close>, or \<open>data-zoombaimage\<close> when \<open>src\<close> is missing or empty.\<close>

definition img_url :: "string option \<times> string option \<Rightarrow> string option" where
  "img_url attrs =
     (case fst attrs of
        None \<Rightarrow> snd attrs
      | Some u \<Rightarrow> if u = [] then snd attrs else Some u)"

definition extract_product_data ::
  "product_page \<Rightarrow> string set \<Rightarrow> (rejection + stamp) \<times> string set" where
  "extract_product_data page scraped_ids =
     (let pid = (case next_products_div page of None \<Rightarrow> None | Some a \<Rightarrow> a);
          have_pid = (case pid of None \<Rightarrow> False | Some p \<Rightarrow> p \<noteq> [])
      in if have_pid \<and> the pid \<in> scraped_ids then (Inl Duplicate, scraped_ids)
         else case (case zoom_img page of Some attrs \<Rightarrow> Some (img_url attrs)
                    | None \<Rightarrow> map_option img_url (presentation_img page)) of
           None \<Rightarrow> (Inl NoImage, scraped_ids)
         | Some found \<Rightarrow>
             (let image_url' = (case found of None \<Rightarrow> [] | Some u \<Rightarrow> u)
              in if image_url' = [] \<or> contains placeholder image_url' then (Inl NoImage, scraped_ids)
                 else case h1_title page of
                   None \<Rightarrow> (Inl NoYear, scraped_ids)
                 | Some h1 \<Rightarrow>
                     (let title_text = strip h1
                      in if title_text = [] then (Inl NoYear, scraped_ids)
                         else case match_year title_text of
                           None \<Rightarrow> (Inl NoYear, scraped_ids)
                         | Some year' \<Rightarrow>
                             (let country' = strip (drop 4 title_text)
                              in if country' = [] then (Inl NoCountry, scraped_ids)
                                 else case h6_title page of
                                   None \<Rightarrow> (Inl InvalidCatalogNumber, scraped_ids)
                                 | Some h6 \<Rightarrow>
                                     (let stamp_number_raw = strip h6;
                                          number = strip (remove_char CHR ''#'' stamp_number_raw)
                                      in if stamp_number_raw = [] then (Inl InvalidCatalogNumber, scraped_ids)
                                         else if \<not> is_valid_stamp_number_page stamp_number_raw
                                         then (Inl InvalidCatalogNumber, scraped_ids)
                                         else case price_element page of
                                           None \<Rightarrow> (Inl NoPrice, scraped_ids)
                                         | Some pe \<Rightarrow>
                                             (case search_price (strip pe) of
                                                None \<Rightarrow> (Inl NoPrice, scraped_ids)
                                              | Some g \<Rightarrow>
                                                  (case float_of_decimal (remove_char CHR '','' g) of
                                                     None \<Rightarrow> (Inl NoPrice, scraped_ids)
                                                   | Some price' \<Rightarrow>
                                                       (Inr \<lparr>product_id =
                                                               (if have_pid then the pid
                                                                else country' @ ''_'' @ number),
                                                             image_url = image_url',
                                                             stamp_number = country' @ '' '' @ number,
                                                             year = year', country = country',
                                                             price = price'\<rparr>,
                                                        if have_pid then insert (the pid) scraped_ids
                                                        else scraped_ids))))))))"

section \<open>The coordinator\<close>

text \<open>
  The scrapers talk to the shop through \<open>requests.get\<close>. The shop is a parameter of the
  model: \<open>server k\<close> is what the \<open>k\<close>-th request of a run comes back with, either
  an exception of the transport or a response with its status code and its decoded
  body. What a run does to the outside is kept in a trace: the requests with the page
  they ask for, and the calls of \<open>time.sleep\<close> with their duration. Writing the accepted
  stamps to the database and to the export file does not influence the loops and is
  not modelled.
\<close>

datatype 'a http = ConnectionError | Response nat 'a

datatype event = Get nat | Sleep real

record crawl =
  nreq :: nat
  seen :: "string set"
  trace :: "event list"

text \<open>
  The body of an API response: \<open>None\<close> when \<open>response.json()\<close> raises, else the
  \<open>results\<close> array and the two numbers of the \<open>pagination\<close> object, each \<open>None\<close> when
  the response does not have it.
\<close>

record api_body =
  results :: "result list"
  currentPage :: "int option"
  totalPages :: "int option"

type_synonym api_response = "api_body option http"

text \<open>\<open>requests.get\<close> for a page: the next answer of the shop, recorded in the trace.\<close>

definition request :: "(nat \<Rightarrow> 'a http) \<Rightarrow> nat \<Rightarrow> crawl \<Rightarrow> 'a http \<times> crawl" where
  "request server page c =
     (server (nreq c), c\<lparr>nreq := nreq c + 1, trace := trace c @ [Get page]\<rparr>)"

definition sleep :: "real \<Rightarrow> crawl \<Rightarrow> crawl" where
  "sleep t c = c\<lparr>trace := trace c @ [Sleep t]\<rparr>"

text \<open>\<open>response.raise_for_status()\<close> raises on the client and server error codes.\<close>

definition raises_for_status :: "nat \<Rightarrow> bool" where
  "raises_for_status code = (400 \<le> code \<and> code < 600)"

text \<open>
  The loop over the raw records of one batch, common to every scraper: each record is
  normalized against the identifiers seen so far, the accepted ones are collected in
  order.
\<close>

fun extract_batch ::
  "('r \<Rightarrow> string set \<Rightarrow> (rejection + 's) \<times> string set) \<Rightarrow> 'r list \<Rightarrow> string set
     \<Rightarrow> 's list \<times> string set" where
  "extract_batch ex [] ids = ([], ids)"
| "extract_batch ex (r # rs) ids =
     (case ex r ids of
        (Inl e, ids') \<Rightarrow> extract_batch ex rs ids'
      | (Inr st, ids') \<Rightarrow>
          (case extract_batch ex rs ids' of (sts, ids'') \<Rightarrow> (st # sts, ids'')))"

text \<open>
  \<open>StampAPIScraper.scrape_page\<close>: the statements after the request, from
  \<open>raise_for_status\<close> on. Every exception ends the page with no stamps.
\<close>

definition read_page :: "builtins \<Rightarrow> nat \<Rightarrow> api_body option \<Rightarrow> crawl \<Rightarrow> stamp list \<times> crawl" where
  "read_page py code body c =
     (if raises_for_status code then ([], c)
      else case body of
             None \<Rightarrow> ([], c)
           | Some data \<Rightarrow>
               (case extract_batch (extract_stamp_data py) (results data) (seen c) of
                  (stamps, ids) \<Rightarrow> (stamps, c\<lparr>seen := ids\<rparr>)))"

definition scrape_page ::
  "builtins \<Rightarrow> (nat \<Rightarrow> api_response) \<Rightarrow> nat \<Rightarrow> crawl \<Rightarrow> stamp list \<times> crawl" where
  "scrape_page py server page c =
     (case request server page c of
        (ConnectionError, c1) \<Rightarrow> ([], c1)
      | (Response code body, c1) \<Rightarrow>
          if code = 429
          then (case request server page (sleep 30 c1) of
                  (ConnectionError, c2) \<Rightarrow> ([], c2)
                | (Response code' body', c2) \<Rightarrow> read_page py code' body' c2)
          else read_page py code body c1)"

text \<open>
  \<open>StampScraper.scrape_page\<close> of the HTML scraper: the body of a response is the list
  of the listings the parser finds in it. There is no branch for the status 429.
\<close>

definition scrape_page_html ::
  "(nat \<Rightarrow> listing list http) \<Rightarrow> nat \<Rightarrow> crawl \<Rightarrow> stamp list \<times> crawl" where
  "scrape_page_html server page c =
     (case request server page c of
        (ConnectionError, c1) \<Rightarrow> ([], c1)
      | (Response code listings, c1) \<Rightarrow>
          if raises_for_status code then ([], c1)
          else (case extract_batch extract_stamp_data_html listings (seen c1) of
                  (stamps, ids) \<Rightarrow> (stamps, c1\<lparr>seen := ids\<rparr>)))"

text \<open>
  The variables of a scraping loop. \<open>scrape_all\<close> of the plain scrapers and
  \<open>scrape_category\<close>, \<open>scrape_condition\<close> of the partitioned ones keep the same three
  counters (the page is \<open>page_num\<close> in the former and \<open>page\<close> in the latter).
\<close>

record progress =
  page_num :: nat
  total_scraped :: nat
  consecutive_empty :: nat
  crawl :: crawl

text \<open>
  \<open>scrape_all\<close> of \<open>StampAPIScraper\<close> and of \<open>StampScraper\<close>: the two loops are the same
  statement for statement and differ in the \<open>scrape_page\<close> they call, the first argument
  here. The \<open>while True\<close> loop may run forever; the model counts the iterations it may
  still make and is \<open>None\<close> when it has not left the loop within them.
\<close>

definition limit_reached :: "int option \<Rightarrow> nat \<Rightarrow> bool" where
  "limit_reached max_pages page =
     (case max_pages of None \<Rightarrow> False | Some m \<Rightarrow> m \<noteq> 0 \<and> int page > m)"

fun scrape_all_loop ::
  "(nat \<Rightarrow> crawl \<Rightarrow> 's list \<times> crawl) \<Rightarrow> real \<Rightarrow> int option \<Rightarrow> nat \<Rightarrow> progress
     \<Rightarrow> progress option" where
  "scrape_all_loop sp delay max_pages 0 st = None"
| "scrape_all_loop sp delay max_pages (Suc fuel) st =
     (if limit_reached max_pages (page_num st) then Some st
      else case sp (page_num st) (crawl st) of
        (stamps, c) \<Rightarrow>
          (let st1 = (if stamps \<noteq> []
                      then st\<lparr>total_scraped := total_scraped st + length stamps,
                              consecutive_empty := 0, crawl := c\<rparr>
                      else st\<lparr>consecutive_empty := consecutive_empty st + 1, crawl := c\<rparr>)
           in if consecutive_empty st1 \<ge> 3 then Some st1
              else scrape_all_loop sp delay max_pages fuel
                     (st1\<lparr>page_num := page_num st1 + 1, crawl := sleep delay (crawl st1)\<rparr>)))"

definition start :: progress where
  "start = \<lparr>page_num = 1, total_scraped = 0, consecutive_empty = 0,
            crawl = \<lparr>nreq = 0, seen = {}, trace = []\<rparr>\<rparr>"

definition scrape_all ::
  "builtins \<Rightarrow> (nat \<Rightarrow> api_response) \<Rightarrow> real \<Rightarrow> int option \<Rightarrow> nat \<Rightarrow> progress option" where
  "scrape_all py server delay max_pages fuel =
     scrape_all_loop (scrape_page py server) delay max_pages fuel start"

definition scrape_all_html ::
  "(nat \<Rightarrow> listing list http) \<Rightarrow> real \<Rightarrow> int option \<Rightarrow> nat \<Rightarrow> progress option" where
  "scrape_all_html server delay max_pages fuel =
     scrape_all_loop (scrape_page_html server) delay max_pages fuel start"

text \<open>
  \<open>StampAPICategoryScraper.scrape_category\<close> and
  \<open>StampAPIUSConditionScraper.scrape_condition\<close>: again one loop, statement for
  statement, with the extractor of the scraper as first argument. The \<open>except\<close> branch
  of the loop body is \<open>on_exception\<close>: it is reached when the request or the decoding
  of the body raises.
\<close>

definition on_exception :: "real \<Rightarrow> progress \<Rightarrow> progress" where
  "on_exception delay st =
     st\<lparr>page_num := page_num st + 1, consecutive_empty := consecutive_empty st + 1,
        crawl := sleep delay (crawl st)\<rparr>"

fun scrape_partition_loop ::
  "(result \<Rightarrow> string set \<Rightarrow> (rejection + 's) \<times> string set) \<Rightarrow> (nat \<Rightarrow> api_response) \<Rightarrow> real
     \<Rightarrow> nat \<Rightarrow> progress \<Rightarrow> progress option" where
  "scrape_partition_loop ex server delay 0 st = None"
| "scrape_partition_loop ex server delay (Suc fuel) st =
     (case request server (page_num st) (crawl st) of
        (ConnectionError, c1) \<Rightarrow>
          (let st1 = on_exception delay (st\<lparr>crawl := c1\<rparr>)
           in if consecutive_empty st1 \<ge> 3 then Some st1
              else scrape_partition_loop ex server delay fuel st1)
      | (Response code body, c1) \<Rightarrow>
          if code = 429
          then scrape_partition_loop ex server delay fuel (st\<lparr>crawl := sleep 30 c1\<rparr>)
          else if code \<noteq> 200 then Some (st\<lparr>crawl := c1\<rparr>)
          else (case body of
             None \<Rightarrow>
               (let st1 = on_exception delay (st\<lparr>crawl := c1\<rparr>)
                in if consecutive_empty st1 \<ge> 3 then Some st1
                   else scrape_partition_loop ex server delay fuel st1)
           | Some data \<Rightarrow>
               if results data = []
               then (let st1 = st\<lparr>consecutive_empty := consecutive_empty st + 1, crawl := c1\<rparr>
                     in if consecutive_empty st1 \<ge> 2 then Some st1
                        else scrape_partition_loop ex server delay fuel
                               (st1\<lparr>page_num := page_num st1 + 1, crawl := sleep delay c1\<rparr>))
               else (case extract_batch ex (results data) (seen c1) of
                  (stamps, ids) \<Rightarrow>
                    (let st1 = st\<lparr>consecutive_empty := 0,
                                   total_scraped := total_scraped st + length stamps,
                                   crawl := c1\<lparr>seen := ids\<rparr>\<rparr>;
                         current_page = (case currentPage data of
                                           None \<Rightarrow> int (page_num st) | Some p \<Rightarrow> p);
                         total_pages = (case totalPages data of None \<Rightarrow> 0 | Some t \<Rightarrow> t)
                     in if current_page \<ge> total_pages then Some st1
                        else scrape_partition_loop ex server delay fuel
                               (st1\<lparr>page_num := page_num st1 + 1,
                                    crawl := sleep delay (crawl st1)\<rparr>)))))"

text \<open>
  Both are called with a set of identifiers that lives across the categories or
  conditions of a run; the counters start afresh.
\<close>

definition scrape_category ::
  "builtins \<Rightarrow> (nat \<Rightarrow> api_response) \<Rightarrow> string \<Rightarrow> real \<Rightarrow> nat \<Rightarrow> crawl \<Rightarrow> progress option" where
  "scrape_category py server category' delay fuel c =
     scrape_partition_loop (\<lambda>r. extract_stamp_data_category py r category') server delay fuel
       \<lparr>page_num = 1, total_scraped = 0, consecutive_empty = 0, crawl = c\<rparr>"

definition scrape_condition ::
  "builtins \<Rightarrow> (nat \<Rightarrow> api_response) \<Rightarrow> string \<Rightarrow> real \<Rightarrow> nat \<Rightarrow> crawl \<Rightarrow> progress option" where
  "scrape_condition py server condition' delay fuel c =
     scrape_partition_loop (\<lambda>r. extract_stamp_data_condition py r condition') server delay fuel
       \<lparr>page_num = 1, total_scraped = 0, consecutive_empty = 0, crawl = c\<rparr>"

section \<open>Example inputs\<close>

text \<open>Builtins for the examples: no text is a float, every float prints as \<open>nan\<close>.\<close>

definition no_floats :: builtins where
  "no_floats = \<lparr>repr_float = (\<lambda>r. ''nan''), parse_float = (\<lambda>s. None)\<rparr>"

text \<open>The stamp Norway 1 as an API result, as a listing and as a product page without identifier.\<close>

definition raw_norway :: result where
  "raw_norway =
     [''id'' \<mapsto> JStr ''42'', ''imageUrl'' \<mapsto> JStr ''https://x/img.jpg'',
      ''sku'' \<mapsto> JStr ''Norway 1'', ''name'' \<mapsto> JStr ''1 - 1855 Norway'',
      ''price'' \<mapsto> JFloat 12.5]"

definition html_norway :: listing where
  "html_norway =
     \<lparr>data_product_id = Some ''42'', img_tag = Some (Some ''https://x/img.jpg''),
      stamp_number_tag = Some ''Norway 1'', title_tag = Some (Some ''1855 Norway''),
      price_tag = Some ''$1,234.50''\<rparr>"

definition page_norway :: product_page where
  "page_norway =
     \<lparr>next_products_div = None, zoom_img = Some (Some ''https://x/img.jpg'', None),
      presentation_img = None, h1_title = Some ''1855 Norway'', h6_title = Some ''#1'',
      price_element = Some ''$1,234.50''\<rparr>"

text \<open>A catalog number that ends in the superscript two, code point 178.\<close>

definition sku_superscript :: string where
  "sku_superscript = ''Norway '' @ [CHR 0xB2]"

text \<open>
  Four shops. The first answers the first three requests with one raw record that has
  no identifier, with a pagination of 9 pages, and every later request with no record.
  The second answers the first three requests with the status 429 and every later one
  with no record. The third and the fourth serve HTML: one always answers with one
  listing without identifier, the other always with the status 429.
\<close>

definition no_records :: api_body where
  "no_records = \<lparr>results = [], currentPage = None, totalPages = None\<rparr>"

definition one_rejected_record :: api_body where
  "one_rejected_record = \<lparr>results = [Map.empty], currentPage = None, totalPages = Some 9\<rparr>"

definition shop_rejected :: "nat \<Rightarrow> api_response" where
  "shop_rejected k =
     (if k < 3 then Response 200 (Some one_rejected_record) else Response 200 (Some no_records))"

definition shop_throttled :: "nat \<Rightarrow> api_response" where
  "shop_throttled k = (if k < 3 then Response 429 None else Response 200 (Some no_records))"

definition html_shop_rejected :: "nat \<Rightarrow> listing list http" where
  "html_shop_rejected k = Response 200 [html_norway\<lparr>data_product_id := None\<rparr>]"

definition html_shop_throttled :: "nat \<Rightarrow> listing list http" where
  "html_shop_throttled k = Response 429 []"

definition fresh :: crawl where
  "fresh = \<lparr>nreq = 0, seen = {}, trace = []\<rparr>"

section \<open>Evaluation\<close>

lemmas string_defs =
  py_isspace_def re_digit_def py_isdigit_def isdigit_def strip_def split_ws_def startswith_def
  split_def remove_char_def match_year_def digit_or_comma_def float_of_decimal_def digit_val_def
  nat_of_digits_def placeholder_def is_valid_stamp_number_def get_default_def get_def py_or_def

lemma get_default_upd:
  "get_default (r(k := v)) k' d =
     (if k' = k then (case v of None \<Rightarrow> d | Some x \<Rightarrow> x) else get_default r k' d)"
  by (simp add: get_default_def)

lemma get_upd:
  "get (r(k := v)) k' = (if k' = k then (case v of None \<Rightarrow> JNull | Some x \<Rightarrow> x) else get r k')"
  by (simp add: get_def get_default_upd)

lemma py_or_truthy: "truthy a \<Longrightarrow> py_or a b = a"
  by (simp add: py_or_def)

lemma py_or_JNull: "py_or JNull b = b"
  by (simp add: py_or_def)

lemma api_norway_eval:
  "extract_stamp_data py raw_norway ids =
     (if ''42'' \<in> ids then (Inl Duplicate, ids)
      else (Inr \<lparr>product_id = ''42'', image_url = ''https://x/img.jpg'',
                  stamp_number = ''Norway 1'', year = ''1855'', country = ''Norway'',
                  price = 12.5\<rparr>, insert ''42'' ids))"
  by (simp add: extract_stamp_data_def raw_norway_def Let_def string_defs)

lemma segmented_norway_eval:
  "extract_stamp_data_segmented py raw_norway ids =
     (if ''42'' \<in> ids then (Inl Duplicate, ids)
      else (Inr \<lparr>product_id = ''42'', image_url = ''https://x/img.jpg'',
                  stamp_number = ''Norway 1'', year = ''1855'', country = ''Norway'',
                  price = 12.5\<rparr>, insert ''42'' ids))"
  by (simp add: extract_stamp_data_segmented_def raw_norway_def Let_def string_defs)

lemma category_norway_eval:
  "extract_stamp_data_category py raw_norway c ids =
     (if ''42'' \<in> ids then (Inl Duplicate, ids)
      else (Inr \<lparr>product_id = ''42'', image_url = ''https://x/img.jpg'',
                  stamp_number = ''Norway 1'', year = ''1855'', country = ''Norway'',
                  price = 12.5, category = c\<rparr>, insert ''42'' ids))"
  by (simp add: extract_stamp_data_category_def raw_norway_def Let_def string_defs)

lemma condition_norway_eval:
  "extract_stamp_data_condition py raw_norway c ids =
     (if ''42'' \<in> ids then (Inl Duplicate, ids)
      else (Inr \<lparr>product_id = ''42'', image_url = ''https://x/img.jpg'',
                  stamp_number = ''Norway 1'', year = ''1855'', country = ''Norway'',
                  price = 12.5, condition = c\<rparr>, insert ''42'' ids))"
  by (simp add: extract_stamp_data_condition_def raw_norway_def Let_def string_defs)

lemma html_norway_eval:
  "extract_stamp_data_html html_norway ids =
     (if ''42'' \<in> ids then (Inl Duplicate, ids)
      else (Inr \<lparr>product_id = ''42'', image_url = ''https://x/img.jpg'',
                  stamp_number = ''Norway 1'', year = ''1855'', country = ''Norway'',
                  price = 1234.5\<rparr>, insert ''42'' ids))"
  by (simp add: extract_stamp_data_html_def html_norway_def Let_def string_defs)


lemma page_norway_eval:
  "extract_product_data page_norway ids =
     (Inr \<lparr>product_id = ''Norway_1'', image_url = ''https://x/img.jpg'',
           stamp_number = ''Norway 1'', year = ''1855'', country = ''Norway'',
           price = 1234.5\<rparr>, ids)"
  by (simp add: extract_product_data_def page_norway_def Let_def string_defs img_url_def
      is_valid_stamp_number_page_def)

section \<open>The identifier set\<close>

lemma extract_stamp_data_seen:
  "extract_stamp_data py r ids = (res, ids') \<Longrightarrow>
     (case res of
        Inl e \<Rightarrow> ids' = ids
      | Inr st \<Rightarrow>
          product_id st = str py (py_or (get_default r ''uid'' (JStr [])) (get_default r ''id'' (JStr [])))
          \<and> product_id st \<notin> ids \<and> ids' = insert (product_id st) ids)"
  unfolding extract_stamp_data_def Let_def
  by (auto split: if_splits json.splits option.splits)

lemma extract_stamp_data_segmented_seen:
  "extract_stamp_data_segmented py r ids = (res, ids') \<Longrightarrow>
     (case res of
        Inl e \<Rightarrow> ids' = ids
      | Inr st \<Rightarrow>
          product_id st = str py (py_or (get_default r ''uid'' (JStr [])) (get_default r ''id'' (JStr [])))
          \<and> product_id st \<notin> ids \<and> ids' = insert (product_id st) ids)"
  unfolding extract_stamp_data_segmented_def Let_def
  by (auto split: if_splits json.splits option.splits)

lemma extract_stamp_data_category_seen:
  "extract_stamp_data_category py r c ids = (res, ids') \<Longrightarrow>
     (case res of
        Inl e \<Rightarrow> ids' = ids
      | Inr st \<Rightarrow>
          product_id st = str py (py_or (get_default r ''uid'' (JStr [])) (get_default r ''id'' (JStr [])))
          \<and> product_id st \<notin> ids \<and> ids' = insert (product_id st) ids)"
  unfolding extract_stamp_data_category_def Let_def
  by (auto split: if_splits json.splits option.splits)

lemma extract_stamp_data_condition_seen:
  "extract_stamp_data_condition py r c ids = (res, ids') \<Longrightarrow>
     (case res of
        Inl e \<Rightarrow> ids' = ids
      | Inr st \<Rightarrow>
          product_id st = str py (py_or (get_default r ''uid'' (JStr [])) (get_default r ''id'' (JStr [])))
          \<and> product_id st \<notin> ids \<and> ids' = insert (product_id st) ids)"
  unfolding extract_stamp_data_condition_def Let_def
  by (auto split: if_splits json.splits option.splits)

lemma extract_stamp_data_html_seen:
  "extract_stamp_data_html l ids = (res, ids') \<Longrightarrow>
     (case res of
        Inl e \<Rightarrow> ids' = ids
      | Inr st \<Rightarrow>
          data_product_id l = Some (product_id st) \<and> product_id st \<notin> ids
          \<and> ids' = insert (product_id st) ids)"
  unfolding extract_stamp_data_html_def Let_def
  by (auto split: if_splits option.splits)

text \<open>
  C10. Whatever the raw record and the set of identifiers seen: a rejecting call of a
  listing normalizer (JSON plain, segmented, category, condition; HTML) leaves the set as
  it was; an accepting call returns the set with the identifier of the record added,
  which is the identifier of the returned stamp and was not in the set, and nothing
  else.
\<close>

theorem C10_seen_set_updated_on_success_only:
  "(case extract_stamp_data py r ids of
      (Inl e, ids') \<Rightarrow> ids' = ids
    | (Inr st, ids') \<Rightarrow>
        product_id st = str py (py_or (get_default r ''uid'' (JStr [])) (get_default r ''id'' (JStr [])))
        \<and> product_id st \<notin> ids \<and> ids' = insert (product_id st) ids)
   \<and> (case extract_stamp_data_segmented py r ids of
      (Inl e, ids') \<Rightarrow> ids' = ids
    | (Inr st, ids') \<Rightarrow>
        product_id st = str py (py_or (get_default r ''uid'' (JStr [])) (get_default r ''id'' (JStr [])))
        \<and> product_id st \<notin> ids \<and> ids' = insert (product_id st) ids)
   \<and> (case extract_stamp_data_category py r c ids of
      (Inl e, ids') \<Rightarrow> ids' = ids
    | (Inr st, ids') \<Rightarrow>
        product_id st = str py (py_or (get_default r ''uid'' (JStr [])) (get_default r ''id'' (JStr [])))
        \<and> product_id st \<notin> ids \<and> ids' = insert (product_id st) ids)
   \<and> (case extract_stamp_data_condition py r c ids of
      (Inl e, ids') \<Rightarrow> ids' = ids
    | (Inr st, ids') \<Rightarrow>
        product_id st = str py (py_or (get_default r ''uid'' (JStr [])) (get_default r ''id'' (JStr [])))
        \<and> product_id st \<notin> ids \<and> ids' = insert (product_id st) ids)
   \<and> (case extract_stamp_data_html l ids of
      (Inl e, ids') \<Rightarrow> ids' = ids
    | (Inr st, ids') \<Rightarrow>
        data_product_id l = Some (product_id st) \<and> product_id st \<notin> ids
        \<and> ids' = insert (product_id st) ids)"
proof -
  have a: "case extract_stamp_data py r ids of
      (Inl e, ids') \<Rightarrow> ids' = ids
    | (Inr st, ids') \<Rightarrow>
        product_id st = str py (py_or (get_default r ''uid'' (JStr [])) (get_default r ''id'' (JStr [])))
        \<and> product_id st \<notin> ids \<and> ids' = insert (product_id st) ids"
    using extract_stamp_data_seen [of py r ids]
    by (cases "extract_stamp_data py r ids") (auto split: sum.splits)
  have b: "case extract_stamp_data_segmented py r ids of
      (Inl e, ids') \<Rightarrow> ids' = ids
    | (Inr st, ids') \<Rightarrow>
        product_id st = str py (py_or (get_default r ''uid'' (JStr [])) (get_default r ''id'' (JStr [])))
        \<and> product_id st \<notin> ids \<and> ids' = insert (product_id st) ids"
    using extract_stamp_data_segmented_seen [of py r ids]
    by (cases "extract_stamp_data_segmented py r ids") (auto split: sum.splits)
  have c: "case extract_stamp_data_category py r c ids of
      (Inl e, ids') \<Rightarrow> ids' = ids
    | (Inr st, ids') \<Rightarrow>
        product_id st = str py (py_or (get_default r ''uid'' (JStr [])) (get_default r ''id'' (JStr [])))
        \<and> product_id st \<notin> ids \<and> ids' = insert (product_id st) ids"
    using extract_stamp_data_category_seen [of py r c ids]
    by (cases "extract_stamp_data_category py r c ids") (auto split: sum.splits)
  have d: "case extract_stamp_data_condition py r c ids of
      (Inl e, ids') \<Rightarrow> ids' = ids
    | (Inr st, ids') \<Rightarrow>
        product_id st = str py (py_or (get_default r ''uid'' (JStr [])) (get_default r ''id'' (JStr [])))
        \<and> product_id st \<notin> ids \<and> ids' = insert (product_id st) ids"
    using extract_stamp_data_condition_seen [of py r c ids]
    by (cases "extract_stamp_data_condition py r c ids") (auto split: sum.splits)
  have e: "case extract_stamp_data_html l ids of
      (Inl e, ids') \<Rightarrow> ids' = ids
    | (Inr st, ids') \<Rightarrow>
        data_product_id l = Some (product_id st) \<and> product_id st \<notin> ids
        \<and> ids' = insert (product_id st) ids"
    using extract_stamp_data_html_seen [of l ids]
    by (cases "extract_stamp_data_html l ids") (auto split: sum.splits)
  from a b c d e show ?thesis by blast
qed

text \<open>
  C1. The API result \<open>{id: "42", imageUrl: "https://x/img.jpg", sku: "Norway 1",
  name: "1 - 1855 Norway", price: 12.5}\<close>, normalized by the plain JSON normalizer against
  a set that does not contain \<open>"42"\<close>, is accepted: the stamp returned has product_id
  \<open>"42"\<close>, stamp_number \<open>"Norway 1"\<close>, year \<open>"1855"\<close>, country \<open>"Norway"\<close> and price 12.5
  (and the image URL of the result), and \<open>"42"\<close> is added to the set.
\<close>

theorem C1_round_trip:
  "''42'' \<notin> ids \<Longrightarrow>
   extract_stamp_data py raw_norway ids =
     (Inr \<lparr>product_id = ''42'', image_url = ''https://x/img.jpg'', stamp_number = ''Norway 1'',
           year = ''1855'', country = ''Norway'', price = 12.5\<rparr>, insert ''42'' ids)"
  by (simp add: api_norway_eval)

theorem C1_round_trip_witness:
  "''42'' \<notin> ({} :: string set) \<and>
   extract_stamp_data no_floats raw_norway {} =
     (Inr \<lparr>product_id = ''42'', image_url = ''https://x/img.jpg'', stamp_number = ''Norway 1'',
           year = ''1855'', country = ''Norway'', price = 12.5\<rparr>, {''42''})"
  using C1_round_trip [of "{}" no_floats] by simp

section \<open>Accepted results\<close>

text \<open>What holds of a result that the plain JSON normalizer accepts, and the converse.\<close>

lemma extract_stamp_data_accepted:
  assumes "extract_stamp_data py r ids = (Inr st, ids')"
  shows "\<exists>u s t.
     py_or (get_default r ''imageUrl'' (JStr [])) (get_default r ''thumbnailImageUrl'' (JStr [])) = JStr u
     \<and> get_default r ''sku'' (JStr []) = JStr s \<and> get_default r ''name'' (JStr []) = JStr t
     \<and> float py (py_or (get r ''price'') (get r ''ss_price'')) = Some (price st)
     \<and> py_or (get r ''price'') (get r ''ss_price'') \<noteq> JNull
     \<and> u \<noteq> [] \<and> \<not> contains placeholder u \<and> s \<noteq> [] \<and> is_valid_stamp_number s \<and> t \<noteq> []
     \<and> 2 \<le> length (split '' - '' None t)
     \<and> match_year (strip (split '' - '' None t ! 1)) = Some (year st)
     \<and> country st = strip (drop 4 (strip (split '' - '' None t ! 1))) \<and> country st \<noteq> []
     \<and> product_id st = str py (py_or (get_default r ''uid'' (JStr [])) (get_default r ''id'' (JStr [])))
     \<and> product_id st \<noteq> [] \<and> product_id st \<notin> ids
     \<and> image_url st = u \<and> stamp_number st = s \<and> ids' = insert (product_id st) ids"
  using assms unfolding extract_stamp_data_def Let_def
  by (auto split: if_splits option.splits json.splits)

lemma extract_stamp_data_acceptI:
  assumes "py_or (get_default r ''imageUrl'' (JStr [])) (get_default r ''thumbnailImageUrl'' (JStr [])) = JStr u"
    and "get_default r ''sku'' (JStr []) = JStr s"
    and "get_default r ''name'' (JStr []) = JStr t"
    and "float py (py_or (get r ''price'') (get r ''ss_price'')) = Some x"
    and "py_or (get r ''price'') (get r ''ss_price'') \<noteq> JNull"
    and "u \<noteq> []" "\<not> contains placeholder u" "s \<noteq> []" "is_valid_stamp_number s" "t \<noteq> []"
    and "2 \<le> length (split '' - '' None t)"
    and "match_year (strip (split '' - '' None t ! 1)) = Some y"
    and "strip (drop 4 (strip (split '' - '' None t ! 1))) \<noteq> []"
    and "str py (py_or (get_default r ''uid'' (JStr [])) (get_default r ''id'' (JStr []))) = pid"
    and "pid \<noteq> []" "pid \<notin> ids"
  shows "extract_stamp_data py r ids =
     (Inr \<lparr>product_id = pid, image_url = u, stamp_number = s, year = y,
           country = strip (drop 4 (strip (split '' - '' None t ! 1))), price = x\<rparr>,
      insert pid ids)"
  using assms unfolding extract_stamp_data_def Let_def by simp

section \<open>The catalog-number gate\<close>

text \<open>
  A catalog text without a token, or whose last token has a character that
  \<open>str.isdigit\<close> does not accept, is not valid.
\<close>

lemma is_valid_stamp_number_rejects:
  "split_ws (strip s) = [] \<or> (\<exists>c \<in> set (last (split_ws (strip s))). \<not> py_isdigit c)
   \<Longrightarrow> \<not> is_valid_stamp_number s"
  by (auto simp: is_valid_stamp_number_def isdigit_def list_all_iff Let_def)

lemma is_valid_stamp_number_examples:
  "\<not> is_valid_stamp_number ''France 12-14''"
  "\<not> is_valid_stamp_number ''Norway 3/4''"
  "\<not> is_valid_stamp_number []"
  by (simp_all add: string_defs)

text \<open>
  A result that the plain JSON normalizer accepts, and a listing that the HTML
  normalizer accepts, are rejected at the catalog-number gate when their catalog number
  is replaced by such a text.
\<close>

lemma extract_stamp_data_catalog_replaced:
  assumes "extract_stamp_data py r ids = (Inr st, ids')"
    and "split_ws (strip s) = [] \<or> (\<exists>c \<in> set (last (split_ws (strip s))). \<not> py_isdigit c)"
  shows "extract_stamp_data py (r(''sku'' \<mapsto> JStr s)) ids = (Inl InvalidCatalogNumber, ids)"
proof -
  from extract_stamp_data_accepted [OF assms(1)] obtain u where
    *: "py_or (get_default r ''imageUrl'' (JStr [])) (get_default r ''thumbnailImageUrl'' (JStr [])) = JStr u"
     "u \<noteq> []" "\<not> contains placeholder u"
     "product_id st = str py (py_or (get_default r ''uid'' (JStr [])) (get_default r ''id'' (JStr [])))"
     "product_id st \<noteq> []" "product_id st \<notin> ids"
    by blast
  from assms(2) have "\<not> is_valid_stamp_number s"
    by (rule is_valid_stamp_number_rejects)
  with * show ?thesis
    unfolding extract_stamp_data_def Let_def
    by (simp add: get_default_upd)
qed

lemma extract_stamp_data_html_catalog_replaced:
  assumes "extract_stamp_data_html l ids = (Inr st, ids')"
    and "split_ws (strip s) = [] \<or> (\<exists>c \<in> set (last (split_ws (strip s))). \<not> py_isdigit c)"
  shows "extract_stamp_data_html (l\<lparr>stamp_number_tag := Some s\<rparr>) ids
     = (Inl InvalidCatalogNumber, ids)"
proof -
  from assms(2) have "\<not> is_valid_stamp_number s"
    by (rule is_valid_stamp_number_rejects)
  with assms(1) show ?thesis
    unfolding extract_stamp_data_html_def Let_def
    by (auto split: if_splits option.splits)
qed

text \<open>
  C2. The claim is that a catalog number whose last token is not made of decimal digits
  only is rejected. The validity test is \<open>str.isdigit\<close>, which also accepts the
  superscript digits: the result of C1 with the catalog number \<open>Norway\<close> followed by a
  superscript two is accepted by the plain JSON normalizer and by the HTML normalizer,
  although the last token of its catalog number contains no decimal digit.
\<close>

theorem C2_superscript_catalog_number_accepted:
  "\<not> list_all re_digit (last (split_ws (strip sku_superscript)))
   \<and> extract_stamp_data py (raw_norway(''sku'' \<mapsto> JStr sku_superscript)) {} =
       (Inr \<lparr>product_id = ''42'', image_url = ''https://x/img.jpg'',
             stamp_number = sku_superscript, year = ''1855'', country = ''Norway'',
             price = 12.5\<rparr>, {''42''})
   \<and> extract_stamp_data_html (html_norway\<lparr>stamp_number_tag := Some sku_superscript\<rparr>) {} =
       (Inr \<lparr>product_id = ''42'', image_url = ''https://x/img.jpg'',
             stamp_number = sku_superscript, year = ''1855'', country = ''Norway'',
             price = 1234.5\<rparr>, {''42''})"
  by (simp add: extract_stamp_data_def extract_stamp_data_html_def raw_norway_def
      html_norway_def sku_superscript_def Let_def string_defs)

section \<open>The title gate\<close>

text \<open>The JSON normalizers and the product-page normalizer return no stamp with an empty country.\<close>

lemma json_country_not_empty:
  "extract_stamp_data py r ids = (Inr st, ids') \<Longrightarrow> country st \<noteq> []"
  "extract_stamp_data_segmented py r ids = (Inr st, ids') \<Longrightarrow> country st \<noteq> []"
  "extract_stamp_data_category py r c ids = (Inr st1, ids') \<Longrightarrow> country st1 \<noteq> []"
  "extract_stamp_data_condition py r c ids = (Inr st2, ids') \<Longrightarrow> country st2 \<noteq> []"
  unfolding extract_stamp_data_def extract_stamp_data_segmented_def
    extract_stamp_data_category_def extract_stamp_data_condition_def Let_def
  by (auto split: if_splits json.splits option.splits)

lemma page_country_not_empty:
  "extract_product_data page ids = (Inr st, ids') \<Longrightarrow> country st \<noteq> []"
  unfolding extract_product_data_def Let_def
  by (auto split: if_splits option.splits)

text \<open>
  C3. The claim is that no normalizer returns a stamp with an empty country. The HTML
  normalizer has no such test: the listing of Norway 1 with the title \<open>1855\<close> is accepted
  with the empty country.
\<close>

theorem C3_html_accepts_empty_country:
  "extract_stamp_data_html (html_norway\<lparr>title_tag := Some (Some ''1855'')\<rparr>) {} =
     (Inr \<lparr>product_id = ''42'', image_url = ''https://x/img.jpg'', stamp_number = ''Norway 1'',
           year = ''1855'', country = [], price = 1234.5\<rparr>, {''42''})"
  by (simp add: extract_stamp_data_html_def html_norway_def Let_def string_defs)

text \<open>
  C4. The claim is that the JSON normalizers split the title at its first delimiter only.
  The plain one splits at every delimiter and reads the second part: of the title
  \<open>1 - 1855 East - Germany\<close> it keeps the country \<open>East\<close>, where the segmented,
  category and condition normalizers keep \<open>East - Germany\<close>.
\<close>

theorem C4_plain_title_split_at_every_delimiter:
  "extract_stamp_data py (raw_norway(''name'' \<mapsto> JStr ''1 - 1855 East - Germany'')) {} =
     (Inr \<lparr>product_id = ''42'', image_url = ''https://x/img.jpg'', stamp_number = ''Norway 1'',
           year = ''1855'', country = ''East'', price = 12.5\<rparr>, {''42''})
   \<and> extract_stamp_data_segmented py (raw_norway(''name'' \<mapsto> JStr ''1 - 1855 East - Germany'')) {} =
     (Inr \<lparr>product_id = ''42'', image_url = ''https://x/img.jpg'', stamp_number = ''Norway 1'',
           year = ''1855'', country = ''East - Germany'', price = 12.5\<rparr>, {''42''})
   \<and> extract_stamp_data_category py (raw_norway(''name'' \<mapsto> JStr ''1 - 1855 East - Germany'')) c {} =
     (Inr \<lparr>product_id = ''42'', image_url = ''https://x/img.jpg'', stamp_number = ''Norway 1'',
           year = ''1855'', country = ''East - Germany'', price = 12.5, category = c\<rparr>, {''42''})"
  by (simp add: extract_stamp_data_def extract_stamp_data_segmented_def
      extract_stamp_data_category_def raw_norway_def Let_def string_defs)

section \<open>The identifier gate\<close>

text \<open>
  C5, as claimed: every normalizer, the product-page one included, rejects a record
  without identifier. The product page of Norway 1 has no identifier and is accepted.
\<close>

theorem C5_page_without_identifier_accepted:
  "next_products_div page_norway = None
   \<and> extract_product_data page_norway {} =
       (Inr \<lparr>product_id = ''Norway_1'', image_url = ''https://x/img.jpg'',
             stamp_number = ''Norway 1'', year = ''1855'', country = ''Norway'',
             price = 1234.5\<rparr>, {})"
  by (simp add: page_norway_eval) (simp add: page_norway_def)

text \<open>
  C5, amended. In the listing normalizers (JSON plain, segmented, category, condition;
  HTML) a record without identifier is rejected with \<open>NoIdentifier\<close>, the set left as it
  was: for JSON, a result with neither \<open>uid\<close> nor \<open>id\<close>; for HTML, a listing without
  the attribute. The product-page normalizer never rejects with \<open>NoIdentifier\<close>: a page
  without identifier passes the same gates as any other, and the stamp it is accepted
  with is identified by \<open>country_number\<close>, which is not added to the set.
\<close>

theorem C5_missing_identifier:
  "(r ''uid'' = None \<and> r ''id'' = None \<longrightarrow>
      extract_stamp_data py r ids = (Inl NoIdentifier, ids)
      \<and> extract_stamp_data_segmented py r ids = (Inl NoIdentifier, ids)
      \<and> extract_stamp_data_category py r c ids = (Inl NoIdentifier, ids)
      \<and> extract_stamp_data_condition py r c ids = (Inl NoIdentifier, ids))
   \<and> (data_product_id l = None \<longrightarrow> extract_stamp_data_html l ids = (Inl NoIdentifier, ids))
   \<and> fst (extract_product_data page ids) \<noteq> Inl NoIdentifier
   \<and> ((next_products_div page = None \<or> next_products_div page = Some None)
        \<and> extract_product_data page ids = (Inr st, ids') \<longrightarrow>
      ids' = ids \<and> (\<exists>n. product_id st = country st @ ''_'' @ n
                          \<and> stamp_number st = country st @ '' '' @ n))"
proof -
  have json: "r ''uid'' = None \<and> r ''id'' = None \<longrightarrow>
      extract_stamp_data py r ids = (Inl NoIdentifier, ids)
      \<and> extract_stamp_data_segmented py r ids = (Inl NoIdentifier, ids)
      \<and> extract_stamp_data_category py r c ids = (Inl NoIdentifier, ids)
      \<and> extract_stamp_data_condition py r c ids = (Inl NoIdentifier, ids)"
    by (simp add: extract_stamp_data_def extract_stamp_data_segmented_def
        extract_stamp_data_category_def extract_stamp_data_condition_def get_default_def
        py_or_def Let_def)
  have html: "data_product_id l = None \<longrightarrow> extract_stamp_data_html l ids = (Inl NoIdentifier, ids)"
    by (simp add: extract_stamp_data_html_def)
  have never: "fst (extract_product_data page ids) \<noteq> Inl NoIdentifier"
    unfolding extract_product_data_def Let_def
    by (auto split: if_splits option.splits)
  have page: "(next_products_div page = None \<or> next_products_div page = Some None)
        \<and> extract_product_data page ids = (Inr st, ids') \<longrightarrow>
      ids' = ids \<and> (\<exists>n. product_id st = country st @ ''_'' @ n
                          \<and> stamp_number st = country st @ '' '' @ n)"
    unfolding extract_product_data_def Let_def
    by (auto split: if_splits option.splits)
  from json html never page show ?thesis by blast
qed

theorem C5_missing_identifier_witness:
  "Map.empty ''uid'' = (None :: json option) \<and> Map.empty ''id'' = (None :: json option)
   \<and> extract_stamp_data no_floats Map.empty {} = (Inl NoIdentifier, {})
   \<and> extract_stamp_data_html (html_norway\<lparr>data_product_id := None\<rparr>) {} = (Inl NoIdentifier, {})
   \<and> next_products_div page_norway = None
   \<and> extract_product_data page_norway {} =
       (Inr \<lparr>product_id = ''Norway_1'', image_url = ''https://x/img.jpg'',
             stamp_number = ''Norway 1'', year = ''1855'', country = ''Norway'',
             price = 1234.5\<rparr>, {})
   \<and> (\<exists>n. ''Norway_1'' = ''Norway'' @ ''_'' @ n \<and> ''Norway 1'' = ''Norway'' @ '' '' @ n)"
proof -
  have h1: "Map.empty ''uid'' = (None :: json option) \<and> Map.empty ''id'' = (None :: json option)"
    by simp
  have h2: "data_product_id (html_norway\<lparr>data_product_id := None\<rparr>) = None"
    by simp
  have h3: "next_products_div page_norway = None"
    by (simp add: page_norway_def)
  note t = C5_missing_identifier
    [where r = Map.empty and l = "html_norway\<lparr>data_product_id := None\<rparr>" and ids = "{}"
       and py = no_floats and page = page_norway]
  from t h1 have a: "extract_stamp_data no_floats Map.empty {} = (Inl NoIdentifier, {})"
    by blast
  from t h2 have b: "extract_stamp_data_html (html_norway\<lparr>data_product_id := None\<rparr>) {}
      = (Inl NoIdentifier, {})"
    by blast
  have h4: "extract_product_data page_norway {} =
       (Inr \<lparr>product_id = ''Norway_1'', image_url = ''https://x/img.jpg'',
             stamp_number = ''Norway 1'', year = ''1855'', country = ''Norway'',
             price = 1234.5\<rparr>, {})"
    by (simp add: page_norway_eval)
  from t [where st = "\<lparr>product_id = ''Norway_1'', image_url = ''https://x/img.jpg'',
             stamp_number = ''Norway 1'', year = ''1855'', country = ''Norway'',
             price = 1234.5\<rparr>" and ids' = "{}"] h3 h4
  have c: "\<exists>n. ''Norway_1'' = ''Norway'' @ ''_'' @ n \<and> ''Norway 1'' = ''Norway'' @ '' '' @ n"
    by simp
  from h1 a b h3 h4 c show ?thesis by blast
qed

section \<open>Duplicates\<close>

lemma extract_stamp_data_again:
  "extract_stamp_data py r ids = (Inr st, ids') \<Longrightarrow>
   extract_stamp_data py r ids' = (Inl Duplicate, ids')"
  unfolding extract_stamp_data_def Let_def
  by (auto split: if_splits json.splits option.splits)

lemma extract_stamp_data_segmented_again:
  "extract_stamp_data_segmented py r ids = (Inr st, ids') \<Longrightarrow>
   extract_stamp_data_segmented py r ids' = (Inl Duplicate, ids')"
  unfolding extract_stamp_data_segmented_def Let_def
  by (auto split: if_splits json.splits option.splits)

lemma extract_stamp_data_category_again:
  "extract_stamp_data_category py r c ids = (Inr st, ids') \<Longrightarrow>
   extract_stamp_data_category py r c ids' = (Inl Duplicate, ids')"
  unfolding extract_stamp_data_category_def Let_def
  by (auto split: if_splits json.splits option.splits)

lemma extract_stamp_data_condition_again:
  "extract_stamp_data_condition py r c ids = (Inr st, ids') \<Longrightarrow>
   extract_stamp_data_condition py r c ids' = (Inl Duplicate, ids')"
  unfolding extract_stamp_data_condition_def Let_def
  by (auto split: if_splits json.splits option.splits)

lemma extract_stamp_data_html_again:
  "extract_stamp_data_html l ids = (Inr st, ids') \<Longrightarrow>
   extract_stamp_data_html l ids' = (Inl Duplicate, ids')"
  unfolding extract_stamp_data_html_def Let_def
  by (auto split: if_splits option.splits)

text \<open>
  C6. A raw record that a listing normalizer (JSON plain, segmented, category,
  condition; HTML) accepts against a set of identifiers is rejected with \<open>Duplicate\<close>
  when it is normalized again against the set the first call returned, and that set is
  returned unchanged.
\<close>

theorem C6_second_call_is_duplicate:
  "(extract_stamp_data py r ids = (Inr st, ids') \<longrightarrow>
      extract_stamp_data py r ids' = (Inl Duplicate, ids'))
   \<and> (extract_stamp_data_segmented py r ids = (Inr st1, ids1) \<longrightarrow>
      extract_stamp_data_segmented py r ids1 = (Inl Duplicate, ids1))
   \<and> (extract_stamp_data_category py r c ids = (Inr st2, ids2) \<longrightarrow>
      extract_stamp_data_category py r c ids2 = (Inl Duplicate, ids2))
   \<and> (extract_stamp_data_condition py r c ids = (Inr st3, ids3) \<longrightarrow>
      extract_stamp_data_condition py r c ids3 = (Inl Duplicate, ids3))
   \<and> (extract_stamp_data_html l ids = (Inr st4, ids4) \<longrightarrow>
      extract_stamp_data_html l ids4 = (Inl Duplicate, ids4))"
  using extract_stamp_data_again [of py r ids st ids']
    extract_stamp_data_segmented_again [of py r ids st1 ids1]
    extract_stamp_data_category_again [of py r c ids st2 ids2]
    extract_stamp_data_condition_again [of py r c ids st3 ids3]
    extract_stamp_data_html_again [of l ids st4 ids4]
  by blast

theorem C6_second_call_is_duplicate_witness:
  "extract_stamp_data no_floats raw_norway {} =
     (Inr \<lparr>product_id = ''42'', image_url = ''https://x/img.jpg'', stamp_number = ''Norway 1'',
           year = ''1855'', country = ''Norway'', price = 12.5\<rparr>, {''42''})
   \<and> extract_stamp_data no_floats raw_norway {''42''} = (Inl Duplicate, {''42''})
   \<and> extract_stamp_data_segmented no_floats raw_norway {''42''} = (Inl Duplicate, {''42''})
   \<and> extract_stamp_data_category no_floats raw_norway ''Worldwide>Europe'' {''42''} = (Inl Duplicate, {''42''})
   \<and> extract_stamp_data_condition no_floats raw_norway ''Used'' {''42''} = (Inl Duplicate, {''42''})
   \<and> extract_stamp_data_html html_norway {''42''} = (Inl Duplicate, {''42''})"
proof -
  note t = C6_second_call_is_duplicate
    [where py = no_floats and r = raw_norway and ids = "{}" and l = html_norway]
  have h: "extract_stamp_data no_floats raw_norway {} =
     (Inr \<lparr>product_id = ''42'', image_url = ''https://x/img.jpg'', stamp_number = ''Norway 1'',
           year = ''1855'', country = ''Norway'', price = 12.5\<rparr>, {''42''})"
    by (simp add: api_norway_eval)
  have h1: "extract_stamp_data_segmented no_floats raw_norway {} =
     (Inr \<lparr>product_id = ''42'', image_url = ''https://x/img.jpg'', stamp_number = ''Norway 1'',
           year = ''1855'', country = ''Norway'', price = 12.5\<rparr>, {''42''})"
    by (simp add: segmented_norway_eval)
  have h2: "extract_stamp_data_category no_floats raw_norway ''Worldwide>Europe'' {} =
     (Inr \<lparr>product_id = ''42'', image_url = ''https://x/img.jpg'', stamp_number = ''Norway 1'',
           year = ''1855'', country = ''Norway'', price = 12.5,
           category = ''Worldwide>Europe''\<rparr>, {''42''})"
    by (simp add: category_norway_eval)
  have h3: "extract_stamp_data_condition no_floats raw_norway ''Used'' {} =
     (Inr \<lparr>product_id = ''42'', image_url = ''https://x/img.jpg'', stamp_number = ''Norway 1'',
           year = ''1855'', country = ''Norway'', price = 12.5, condition = ''Used''\<rparr>, {''42''})"
    by (simp add: condition_norway_eval)
  have h4: "extract_stamp_data_html html_norway {} =
     (Inr \<lparr>product_id = ''42'', image_url = ''https://x/img.jpg'', stamp_number = ''Norway 1'',
           year = ''1855'', country = ''Norway'', price = 1234.5\<rparr>, {''42''})"
    by (simp add: html_norway_eval)
  from t h have a: "extract_stamp_data no_floats raw_norway {''42''} = (Inl Duplicate, {''42''})"
    by blast
  from t h1 have b: "extract_stamp_data_segmented no_floats raw_norway {''42''} = (Inl Duplicate, {''42''})"
    by blast
  from t [where c = "''Worldwide>Europe''"] h2
  have c: "extract_stamp_data_category no_floats raw_norway ''Worldwide>Europe'' {''42''}
      = (Inl Duplicate, {''42''})"
    by blast
  from t [where c = "''Used''"] h3
  have d: "extract_stamp_data_condition no_floats raw_norway ''Used'' {''42''} = (Inl Duplicate, {''42''})"
    by blast
  from t h4 have e: "extract_stamp_data_html html_norway {''42''} = (Inl Duplicate, {''42''})"
    by blast
  from h a b c d e show ?thesis by blast
qed

section \<open>The price gate\<close>

lemma search_price_example: "search_price ''$1,234.50'' = Some ''1,234.50''"
  by (simp add: digit_or_comma_def re_digit_def)

lemma float_of_decimal_example:
  "float_of_decimal (remove_char CHR '','' ''1,234.50'') = Some 1234.5"
  by (simp add: float_of_decimal_def remove_char_def re_digit_def nat_of_digits_def digit_val_def)

lemma extract_stamp_data_numeric_price:
  assumes "extract_stamp_data py r ids = (Inr st, ids')" and "x \<noteq> 0"
  shows "extract_stamp_data py (r(''price'' \<mapsto> JFloat x)) ids = (Inr (st\<lparr>price := x\<rparr>), ids')"
proof -
  from extract_stamp_data_accepted [OF assms(1)] obtain u s t where
    *: "py_or (get_default r ''imageUrl'' (JStr [])) (get_default r ''thumbnailImageUrl'' (JStr [])) = JStr u"
     "get_default r ''sku'' (JStr []) = JStr s" "get_default r ''name'' (JStr []) = JStr t"
     "u \<noteq> []" "\<not> contains placeholder u" "s \<noteq> []" "is_valid_stamp_number s" "t \<noteq> []"
     "2 \<le> length (split '' - '' None t)"
     "match_year (strip (split '' - '' None t ! 1)) = Some (year st)"
     "country st = strip (drop 4 (strip (split '' - '' None t ! 1)))" "country st \<noteq> []"
     "product_id st = str py (py_or (get_default r ''uid'' (JStr [])) (get_default r ''id'' (JStr [])))"
     "product_id st \<noteq> []" "product_id st \<notin> ids"
     "image_url st = u" "stamp_number st = s" "ids' = insert (product_id st) ids"
    by blast
  have "extract_stamp_data py (r(''price'' \<mapsto> JFloat x)) ids =
     (Inr \<lparr>product_id = product_id st, image_url = u, stamp_number = s, year = year st,
           country = strip (drop 4 (strip (split '' - '' None t ! 1))), price = x\<rparr>,
      insert (product_id st) ids)"
    by (rule extract_stamp_data_acceptI)
      (use * assms(2) in \<open>simp_all add: get_default_upd get_upd py_or_truthy\<close>)
  with * show ?thesis by simp
qed

lemma extract_stamp_data_price_removed:
  assumes "extract_stamp_data py r ids = (Inr st, ids')"
  shows "extract_stamp_data py (r(''price'' := None, ''ss_price'' := None)) ids = (Inl NoPrice, ids)"
proof -
  from extract_stamp_data_accepted [OF assms] obtain u s t where
    *: "py_or (get_default r ''imageUrl'' (JStr [])) (get_default r ''thumbnailImageUrl'' (JStr [])) = JStr u"
     "get_default r ''sku'' (JStr []) = JStr s" "get_default r ''name'' (JStr []) = JStr t"
     "u \<noteq> []" "\<not> contains placeholder u" "s \<noteq> []" "is_valid_stamp_number s" "t \<noteq> []"
     "2 \<le> length (split '' - '' None t)"
     "match_year (strip (split '' - '' None t ! 1)) = Some (year st)"
     "country st = strip (drop 4 (strip (split '' - '' None t ! 1)))" "country st \<noteq> []"
     "product_id st = str py (py_or (get_default r ''uid'' (JStr [])) (get_default r ''id'' (JStr [])))"
     "product_id st \<noteq> []" "product_id st \<notin> ids"
    by blast
  show ?thesis
    unfolding extract_stamp_data_def Let_def
    using * by (simp add: get_default_upd get_upd py_or_JNull)
qed

lemma extract_stamp_data_no_price:
  assumes "r ''price'' = None" and "r ''ss_price'' = None"
  shows "isl (fst (extract_stamp_data py r ids))" and "snd (extract_stamp_data py r ids) = ids"
proof -
  have "py_or (get r ''price'') (get r ''ss_price'') = JNull"
    using assms by (simp add: get_def get_default_def py_or_def)
  then show "isl (fst (extract_stamp_data py r ids))"
    and "snd (extract_stamp_data py r ids) = ids"
    unfolding extract_stamp_data_def Let_def
    by (auto split: json.splits option.splits)
qed

lemma extract_stamp_data_html_price_text:
  "extract_stamp_data_html l ids = (Inr st, ids') \<Longrightarrow>
   extract_stamp_data_html (l\<lparr>price_tag := Some ''$1,234.50''\<rparr>) ids
     = (Inr (st\<lparr>price := 1234.5\<rparr>), ids')"
  unfolding extract_stamp_data_html_def Let_def
  by (auto split: if_splits option.splits simp: search_price_example float_of_decimal_example
      simp del: search_price.simps)

lemma extract_stamp_data_html_price_removed:
  "extract_stamp_data_html l ids = (Inr st, ids') \<Longrightarrow>
   extract_stamp_data_html (l\<lparr>price_tag := None\<rparr>) ids = (Inl NoPrice, ids)"
  unfolding extract_stamp_data_html_def Let_def
  by (auto split: if_splits option.splits)

lemma extract_stamp_data_html_no_price:
  assumes "price_tag l = None"
  shows "isl (fst (extract_stamp_data_html l ids))" and "snd (extract_stamp_data_html l ids) = ids"
  using assms unfolding extract_stamp_data_html_def Let_def
  by (auto split: if_splits option.splits)

text \<open>
  C8. The price pattern finds \<open>1,234.50\<close> in the text \<open>$1,234.50\<close>, which is the float
  1234.5 once the commas are removed; a listing that the HTML normalizer accepts is
  accepted with the price 1234.5 when this is its price text. \<open>float\<close> of the JSON number
  12.5 is 12.5, and a result that the plain JSON normalizer accepts is accepted with the
  price \<open>x\<close> when its field \<open>price\<close> is the number \<open>x\<close>, for 12.5 as for every number
  other than zero. A record without price (a listing without price tag; a result with
  neither \<open>price\<close> nor \<open>ss_price\<close>, the field read when \<open>price\<close> is missing) is never
  accepted and leaves the identifiers as they were, and a record that is accepted with
  its price is rejected with \<open>NoPrice\<close> without it.
\<close>

theorem C8_price:
  "search_price ''$1,234.50'' = Some ''1,234.50''
   \<and> float_of_decimal (remove_char CHR '','' ''1,234.50'') = Some 1234.5
   \<and> float py (JFloat 12.5) = Some 12.5
   \<and> (extract_stamp_data_html l ids = (Inr st, ids') \<longrightarrow>
        extract_stamp_data_html (l\<lparr>price_tag := Some ''$1,234.50''\<rparr>) ids
          = (Inr (st\<lparr>price := 1234.5\<rparr>), ids')
        \<and> extract_stamp_data_html (l\<lparr>price_tag := None\<rparr>) ids = (Inl NoPrice, ids))
   \<and> (extract_stamp_data py r ids = (Inr st, ids') \<longrightarrow>
        extract_stamp_data py (r(''price'' \<mapsto> JFloat 12.5)) ids = (Inr (st\<lparr>price := 12.5\<rparr>), ids')
        \<and> (x \<noteq> 0 \<longrightarrow>
             extract_stamp_data py (r(''price'' \<mapsto> JFloat x)) ids = (Inr (st\<lparr>price := x\<rparr>), ids'))
        \<and> extract_stamp_data py (r(''price'' := None, ''ss_price'' := None)) ids = (Inl NoPrice, ids))
   \<and> (price_tag l = None \<longrightarrow>
        isl (fst (extract_stamp_data_html l ids)) \<and> snd (extract_stamp_data_html l ids) = ids)
   \<and> (r ''price'' = None \<and> r ''ss_price'' = None \<longrightarrow>
        isl (fst (extract_stamp_data py r ids)) \<and> snd (extract_stamp_data py r ids) = ids)"
  using search_price_example float_of_decimal_example
    extract_stamp_data_html_price_text [of l ids st ids']
    extract_stamp_data_html_price_removed [of l ids st ids']
    extract_stamp_data_numeric_price [of py r ids st ids' "12.5"]
    extract_stamp_data_numeric_price [of py r ids st ids' x]
    extract_stamp_data_price_removed [of py r ids st ids']
    extract_stamp_data_html_no_price [of l ids]
    extract_stamp_data_no_price [of r py ids]
  by simp

theorem C8_price_witness:
  "extract_stamp_data_html html_norway {} =
     (Inr \<lparr>product_id = ''42'', image_url = ''https://x/img.jpg'', stamp_number = ''Norway 1'',
           year = ''1855'', country = ''Norway'', price = 1234.5\<rparr>, {''42''})
   \<and> extract_stamp_data_html (html_norway\<lparr>price_tag := None\<rparr>) {} = (Inl NoPrice, {})
   \<and> extract_stamp_data no_floats (raw_norway(''price'' \<mapsto> JFloat 12.5)) {} =
     (Inr \<lparr>product_id = ''42'', image_url = ''https://x/img.jpg'', stamp_number = ''Norway 1'',
           year = ''1855'', country = ''Norway'', price = 12.5\<rparr>, {''42''})
   \<and> extract_stamp_data no_floats (raw_norway(''price'' \<mapsto> JFloat 3)) {} =
     (Inr \<lparr>product_id = ''42'', image_url = ''https://x/img.jpg'', stamp_number = ''Norway 1'',
           year = ''1855'', country = ''Norway'', price = 3\<rparr>, {''42''})
   \<and> extract_stamp_data no_floats (raw_norway(''price'' := None, ''ss_price'' := None)) {}
       = (Inl NoPrice, {})
   \<and> isl (fst (extract_stamp_data_html (html_norway\<lparr>price_tag := None\<rparr>) {}))
   \<and> isl (fst (extract_stamp_data no_floats (raw_norway(''price'' := None)) {}))"
proof -
  note t = C8_price [where py = no_floats and ids = "{}" and x = 3]
  have h1: "extract_stamp_data_html html_norway {} =
     (Inr \<lparr>product_id = ''42'', image_url = ''https://x/img.jpg'', stamp_number = ''Norway 1'',
           year = ''1855'', country = ''Norway'', price = 1234.5\<rparr>, {''42''})"
    by (simp add: html_norway_eval)
  have h2: "extract_stamp_data no_floats raw_norway {} =
     (Inr \<lparr>product_id = ''42'', image_url = ''https://x/img.jpg'', stamp_number = ''Norway 1'',
           year = ''1855'', country = ''Norway'', price = 12.5\<rparr>, {''42''})"
    by (simp add: api_norway_eval)
  have h3: "price_tag (html_norway\<lparr>price_tag := None\<rparr>) = None"
    by simp
  have h4: "(raw_norway(''price'' := None)) ''price'' = None
      \<and> (raw_norway(''price'' := None)) ''ss_price'' = None"
    by (simp add: raw_norway_def)
  from t [where l = html_norway, THEN conjunct2, THEN conjunct2, THEN conjunct2, THEN conjunct1,
      rule_format, OF h1]
  have a: "extract_stamp_data_html (html_norway\<lparr>price_tag := None\<rparr>) {} = (Inl NoPrice, {})"
    by simp
  from t [where r = raw_norway, THEN conjunct2, THEN conjunct2, THEN conjunct2, THEN conjunct2,
      THEN conjunct1, rule_format, OF h2]
  have b: "extract_stamp_data no_floats (raw_norway(''price'' \<mapsto> JFloat 12.5)) {} =
     (Inr \<lparr>product_id = ''42'', image_url = ''https://x/img.jpg'', stamp_number = ''Norway 1'',
           year = ''1855'', country = ''Norway'', price = 12.5\<rparr>, {''42''})"
    and c: "extract_stamp_data no_floats (raw_norway(''price'' \<mapsto> JFloat 3)) {} =
     (Inr \<lparr>product_id = ''42'', image_url = ''https://x/img.jpg'', stamp_number = ''Norway 1'',
           year = ''1855'', country = ''Norway'', price = 3\<rparr>, {''42''})"
    and d: "extract_stamp_data no_floats (raw_norway(''price'' := None, ''ss_price'' := None)) {}
       = (Inl NoPrice, {})"
    by simp_all
  from t [where l = "html_norway\<lparr>price_tag := None\<rparr>", THEN conjunct2, THEN conjunct2,
      THEN conjunct2, THEN conjunct2, THEN conjunct2, THEN conjunct1, rule_format, OF h3]
  have e: "isl (fst (extract_stamp_data_html (html_norway\<lparr>price_tag := None\<rparr>) {}))"
    by simp
  from t [where r = "raw_norway(''price'' := None)", THEN conjunct2, THEN conjunct2,
      THEN conjunct2, THEN conjunct2, THEN conjunct2, THEN conjunct2, rule_format, OF h4]
  have f: "isl (fst (extract_stamp_data no_floats (raw_norway(''price'' := None)) {}))"
    by simp
  from h1 a b c d e f show ?thesis by simp
qed

section \<open>The loops\<close>

lemma limit_reached_mono:
  "\<not> limit_reached mp (p + k) \<Longrightarrow> \<not> limit_reached mp p"
  by (auto simp: limit_reached_def split: option.splits)

lemma extract_batch_all_rejected:
  assumes "\<And>r ids e ids'. ex r ids = (Inl e, ids') \<Longrightarrow> ids' = ids"
    and "\<forall>r \<in> set rs. isl (fst (ex r ids))"
  shows "extract_batch ex rs ids = ([], ids)"
  using assms(2)
proof (induction rs)
  case Nil
  then show ?case by simp
next
  case (Cons r rs)
  then obtain e ids' where "ex r ids = (Inl e, ids')"
    by (cases "ex r ids") (auto simp: isl_def)
  with assms(1) [of r ids e ids'] Cons show ?case by simp
qed

declare scrape_all_loop.simps(2) [simp del] scrape_partition_loop.simps(2) [simp del]

lemma scrape_all_loop_empty:
  assumes "\<not> limit_reached mp (page_num st)" and "sp (page_num st) (crawl st) = ([], c)"
  shows "scrape_all_loop sp delay mp (Suc fuel) st =
     (if 2 \<le> consecutive_empty st
      then Some \<lparr>page_num = page_num st, total_scraped = total_scraped st,
                 consecutive_empty = consecutive_empty st + 1, crawl = c\<rparr>
      else scrape_all_loop sp delay mp fuel
             \<lparr>page_num = page_num st + 1, total_scraped = total_scraped st,
              consecutive_empty = consecutive_empty st + 1, crawl = sleep delay c\<rparr>)"
  using assms by (cases st) (auto simp: Let_def scrape_all_loop.simps(2))

lemma scrape_all_loop_nonempty:
  assumes "\<not> limit_reached mp (page_num st)" and "sp (page_num st) (crawl st) = (x # xs, c)"
  shows "scrape_all_loop sp delay mp (Suc fuel) st =
     scrape_all_loop sp delay mp fuel
       \<lparr>page_num = page_num st + 1, total_scraped = total_scraped st + Suc (length xs),
        consecutive_empty = 0, crawl = sleep delay c\<rparr>"
  using assms by (cases st) (simp add: Let_def scrape_all_loop.simps(2))

lemma three_empty_batches:
  assumes "consecutive_empty st = 0" and "\<not> limit_reached mp (page_num st + 2)"
    and "sp (page_num st) (crawl st) = ([], c1)"
    and "sp (page_num st + 1) (sleep delay c1) = ([], c2)"
    and "sp (page_num st + 2) (sleep delay c2) = ([], c3)"
  shows "scrape_all_loop sp delay mp (Suc (Suc (Suc fuel))) st =
     Some \<lparr>page_num = page_num st + 2, total_scraped = total_scraped st,
           consecutive_empty = 3, crawl = c3\<rparr>"
proof -
  have l0: "\<not> limit_reached mp (page_num st)" and l1: "\<not> limit_reached mp (page_num st + 1)"
    using assms(2) limit_reached_mono [of mp "page_num st" 2]
      limit_reached_mono [of mp "page_num st + 1" 1] by simp_all
  let ?st1 = "\<lparr>page_num = page_num st + 1, total_scraped = total_scraped st,
               consecutive_empty = 1, crawl = sleep delay c1\<rparr>"
  let ?st2 = "\<lparr>page_num = page_num st + 2, total_scraped = total_scraped st,
               consecutive_empty = 2, crawl = sleep delay c2\<rparr>"
  have "scrape_all_loop sp delay mp (Suc (Suc (Suc fuel))) st =
        scrape_all_loop sp delay mp (Suc (Suc fuel)) ?st1"
    using scrape_all_loop_empty [of mp st sp c1 delay "Suc (Suc fuel)"] l0 assms(1,3) by simp
  also have "\<dots> = scrape_all_loop sp delay mp (Suc fuel) ?st2"
    using scrape_all_loop_empty [of mp ?st1 sp c2 delay "Suc fuel"] l1 assms(4) by (simp add: numeral_2_eq_2)
  also have "\<dots> = Some \<lparr>page_num = page_num st + 2, total_scraped = total_scraped st,
           consecutive_empty = 3, crawl = c3\<rparr>"
    using scrape_all_loop_empty [of mp ?st2 sp c3 delay fuel] assms(2,5)
    by (simp add: numeral_3_eq_3)
  finally show ?thesis .
qed

lemma two_empty_batches_then_stamps:
  assumes "consecutive_empty st = 0" and "\<not> limit_reached mp (page_num st + 2)"
    and "sp (page_num st) (crawl st) = ([], c1)"
    and "sp (page_num st + 1) (sleep delay c1) = ([], c2)"
    and "sp (page_num st + 2) (sleep delay c2) = (x # xs, c3)"
  shows "scrape_all_loop sp delay mp (Suc (Suc (Suc fuel))) st =
     scrape_all_loop sp delay mp fuel
       \<lparr>page_num = page_num st + 3, total_scraped = total_scraped st + Suc (length xs),
        consecutive_empty = 0, crawl = sleep delay c3\<rparr>"
proof -
  have l0: "\<not> limit_reached mp (page_num st)" and l1: "\<not> limit_reached mp (page_num st + 1)"
    using assms(2) limit_reached_mono [of mp "page_num st" 2]
      limit_reached_mono [of mp "page_num st + 1" 1] by simp_all
  let ?st1 = "\<lparr>page_num = page_num st + 1, total_scraped = total_scraped st,
               consecutive_empty = 1, crawl = sleep delay c1\<rparr>"
  let ?st2 = "\<lparr>page_num = page_num st + 2, total_scraped = total_scraped st,
               consecutive_empty = 2, crawl = sleep delay c2\<rparr>"
  have "scrape_all_loop sp delay mp (Suc (Suc (Suc fuel))) st =
        scrape_all_loop sp delay mp (Suc (Suc fuel)) ?st1"
    using scrape_all_loop_empty [of mp st sp c1 delay "Suc (Suc fuel)"] l0 assms(1,3) by simp
  also have "\<dots> = scrape_all_loop sp delay mp (Suc fuel) ?st2"
    using scrape_all_loop_empty [of mp ?st1 sp c2 delay "Suc fuel"] l1 assms(4) by (simp add: numeral_2_eq_2)
  also have "\<dots> = scrape_all_loop sp delay mp fuel
       \<lparr>page_num = page_num st + 3, total_scraped = total_scraped st + Suc (length xs),
        consecutive_empty = 0, crawl = sleep delay c3\<rparr>"
    using scrape_all_loop_nonempty [of mp ?st2 sp x xs c3 delay fuel] assms(2,5)
    by (simp add: numeral_3_eq_3)
  finally show ?thesis .
qed

section \<open>One page of the plain scrapers\<close>

lemma scrape_page_all_rejected:
  assumes "server (nreq c) = Response 200 (Some data)"
    and "\<forall>r \<in> set (results data). isl (fst (extract_stamp_data py r (seen c)))"
  shows "scrape_page py server p c =
     ([], \<lparr>nreq = nreq c + 1, seen = seen c, trace = trace c @ [Get p]\<rparr>)"
proof -
  have "extract_batch (extract_stamp_data py) (results data) (seen c) = ([], seen c)"
    using extract_stamp_data_seen [of py] assms(2)
    by (intro extract_batch_all_rejected) (force, simp)
  with assms(1) show ?thesis
    by (cases c) (simp add: scrape_page_def request_def read_page_def raises_for_status_def)
qed

lemma scrape_page_html_all_rejected:
  assumes "server (nreq c) = Response 200 listings"
    and "\<forall>l \<in> set listings. isl (fst (extract_stamp_data_html l (seen c)))"
  shows "scrape_page_html server p c =
     ([], \<lparr>nreq = nreq c + 1, seen = seen c, trace = trace c @ [Get p]\<rparr>)"
proof -
  have "extract_batch extract_stamp_data_html listings (seen c) = ([], seen c)"
    using extract_stamp_data_html_seen assms(2)
    by (intro extract_batch_all_rejected) (force, simp)
  with assms(1) show ?thesis
    by (cases c) (simp add: scrape_page_html_def request_def raises_for_status_def)
qed

lemma scrape_page_throttled:
  assumes "server (nreq c) = Response 429 b"
  shows "\<exists>stamps ids. scrape_page py server p c =
     (stamps, \<lparr>nreq = nreq c + 2, seen = ids, trace = trace c @ [Get p, Sleep 30, Get p]\<rparr>)"
proof (cases "server (Suc (nreq c))")
  case ConnectionError
  with assms show ?thesis
    by (cases c) (simp add: scrape_page_def request_def sleep_def)
next
  case (Response code body)
  with assms show ?thesis
    by (cases c)
      (auto simp: scrape_page_def request_def sleep_def read_page_def
        split: option.splits prod.splits)
qed

lemma scrape_page_throttled_twice:
  assumes "server (nreq c) = Response 429 b" and "server (Suc (nreq c)) = Response 429 b'"
  shows "scrape_page py server p c =
     ([], \<lparr>nreq = nreq c + 2, seen = seen c, trace = trace c @ [Get p, Sleep 30, Get p]\<rparr>)"
  using assms
  by (cases c) (simp add: scrape_page_def request_def sleep_def read_page_def raises_for_status_def)

lemma scrape_page_html_throttled:
  assumes "server (nreq c) = Response 429 listings"
  shows "scrape_page_html server p c =
     ([], \<lparr>nreq = nreq c + 1, seen = seen c, trace = trace c @ [Get p]\<rparr>)"
  using assms
  by (cases c) (simp add: scrape_page_html_def request_def raises_for_status_def)

section \<open>One iteration of the partitioned scrapers\<close>

lemma partition_throttled:
  assumes "server (nreq (crawl st)) = Response 429 b"
  shows "scrape_partition_loop ex server delay (Suc fuel) st =
     scrape_partition_loop ex server delay fuel
       \<lparr>page_num = page_num st, total_scraped = total_scraped st,
        consecutive_empty = consecutive_empty st,
        crawl = \<lparr>nreq = nreq (crawl st) + 1, seen = seen (crawl st),
                 trace = trace (crawl st) @ [Get (page_num st), Sleep 30]\<rparr>\<rparr>"
  using assms
  by (cases st, cases "crawl st")
    (simp add: scrape_partition_loop.simps(2) request_def sleep_def)

lemma partition_throttled_repeatedly:
  assumes "\<forall>k<n. \<exists>b. server (nreq (crawl st) + k) = Response 429 b"
  shows "scrape_partition_loop ex server delay (n + fuel) st =
     scrape_partition_loop ex server delay fuel
       \<lparr>page_num = page_num st, total_scraped = total_scraped st,
        consecutive_empty = consecutive_empty st,
        crawl = \<lparr>nreq = nreq (crawl st) + n, seen = seen (crawl st),
                 trace = trace (crawl st)
                   @ concat (replicate n [Get (page_num st), Sleep 30])\<rparr>\<rparr>"
  using assms
proof (induction n arbitrary: st)
  case 0
  then show ?case by (cases st, cases "crawl st") simp
next
  case (Suc n)
  from Suc.prems obtain b where b: "server (nreq (crawl st)) = Response 429 b"
    by (metis add.right_neutral zero_less_Suc)
  let ?st = "\<lparr>page_num = page_num st, total_scraped = total_scraped st,
        consecutive_empty = consecutive_empty st,
        crawl = \<lparr>nreq = nreq (crawl st) + 1, seen = seen (crawl st),
                 trace = trace (crawl st) @ [Get (page_num st), Sleep 30]\<rparr>\<rparr>"
  have "\<forall>k<n. \<exists>b. server (nreq (crawl ?st) + k) = Response 429 b"
  proof (intro allI impI)
    fix k assume "k < n"
    then have "Suc k < Suc n" by simp
    with Suc.prems obtain b' where "server (nreq (crawl st) + Suc k) = Response 429 b'"
      by blast
    then show "\<exists>b. server (nreq (crawl ?st) + k) = Response 429 b" by simp
  qed
  then have "scrape_partition_loop ex server delay (n + fuel) ?st =
     scrape_partition_loop ex server delay fuel
       \<lparr>page_num = page_num st, total_scraped = total_scraped st,
        consecutive_empty = consecutive_empty st,
        crawl = \<lparr>nreq = nreq (crawl st) + Suc n, seen = seen (crawl st),
                 trace = trace (crawl st)
                   @ concat (replicate (Suc n) [Get (page_num st), Sleep 30])\<rparr>\<rparr>"
    using Suc.IH [of ?st] by simp
  moreover have "scrape_partition_loop ex server delay (Suc n + fuel) st =
     scrape_partition_loop ex server delay (n + fuel) ?st"
    using partition_throttled [where server = server and st = st and b = b and ex = ex
      and delay = delay and fuel = "n + fuel"] b by simp
  ultimately show ?case by simp
qed

lemma partition_throttled_forever:
  assumes "\<forall>k. \<exists>b. server k = Response 429 b"
  shows "scrape_partition_loop ex server delay fuel st = None"
proof (induction fuel arbitrary: st)
  case 0
  show ?case by simp
next
  case (Suc fuel)
  from assms obtain b where b: "server (nreq (crawl st)) = Response 429 b" by blast
  from partition_throttled [where server = server and st = st and b = b and ex = ex
      and delay = delay and fuel = fuel] b Suc.IH
  show ?case by simp
qed

lemma partition_raw_records:
  assumes "server (nreq (crawl st)) = Response 200 (Some data)" and "results data \<noteq> []"
    and "extract_batch ex (results data) (seen (crawl st)) = (stamps, ids)"
    and "(case currentPage data of None \<Rightarrow> int (page_num st) | Some p \<Rightarrow> p)
         < (case totalPages data of None \<Rightarrow> 0 | Some t \<Rightarrow> t)"
  shows "scrape_partition_loop ex server delay (Suc fuel) st =
     scrape_partition_loop ex server delay fuel
       \<lparr>page_num = page_num st + 1, total_scraped = total_scraped st + length stamps,
        consecutive_empty = 0,
        crawl = \<lparr>nreq = nreq (crawl st) + 1, seen = ids,
                 trace = trace (crawl st) @ [Get (page_num st), Sleep delay]\<rparr>\<rparr>"
  using assms
  by (cases st, cases "crawl st")
    (auto simp: scrape_partition_loop.simps(2) request_def sleep_def Let_def)

lemma partition_no_raw_records:
  assumes "server (nreq (crawl st)) = Response 200 (Some data)" and "results data = []"
  shows "scrape_partition_loop ex server delay (Suc fuel) st =
     (if 1 \<le> consecutive_empty st
      then Some \<lparr>page_num = page_num st, total_scraped = total_scraped st,
                 consecutive_empty = consecutive_empty st + 1,
                 crawl = \<lparr>nreq = nreq (crawl st) + 1, seen = seen (crawl st),
                          trace = trace (crawl st) @ [Get (page_num st)]\<rparr>\<rparr>
      else scrape_partition_loop ex server delay fuel
             \<lparr>page_num = page_num st + 1, total_scraped = total_scraped st,
              consecutive_empty = consecutive_empty st + 1,
              crawl = \<lparr>nreq = nreq (crawl st) + 1, seen = seen (crawl st),
                       trace = trace (crawl st) @ [Get (page_num st), Sleep delay]\<rparr>\<rparr>)"
  using assms
  by (cases st, cases "crawl st")
    (auto simp: scrape_partition_loop.simps(2) request_def sleep_def Let_def)

lemma two_batches_without_raw_records:
  assumes "consecutive_empty st = 0"
    and "server (nreq (crawl st)) = Response 200 (Some d1)" and "results d1 = []"
    and "server (Suc (nreq (crawl st))) = Response 200 (Some d2)" and "results d2 = []"
  shows "scrape_partition_loop ex server delay (Suc (Suc fuel)) st =
     Some \<lparr>page_num = page_num st + 1, total_scraped = total_scraped st,
           consecutive_empty = 2,
           crawl = \<lparr>nreq = nreq (crawl st) + 2, seen = seen (crawl st),
                    trace = trace (crawl st)
                      @ [Get (page_num st), Sleep delay, Get (page_num st + 1)]\<rparr>\<rparr>"
proof -
  let ?st1 = "\<lparr>page_num = page_num st + 1, total_scraped = total_scraped st,
              consecutive_empty = 1,
              crawl = \<lparr>nreq = nreq (crawl st) + 1, seen = seen (crawl st),
                       trace = trace (crawl st) @ [Get (page_num st), Sleep delay]\<rparr>\<rparr>"
  have "scrape_partition_loop ex server delay (Suc (Suc fuel)) st =
        scrape_partition_loop ex server delay (Suc fuel) ?st1"
    using partition_no_raw_records [where server = server and st = st and data = d1
        and ex = ex and delay = delay and fuel = "Suc fuel"] assms(1,2,3)
    by simp
  also have "\<dots> = Some \<lparr>page_num = page_num st + 1, total_scraped = total_scraped st,
           consecutive_empty = 2,
           crawl = \<lparr>nreq = nreq (crawl st) + 2, seen = seen (crawl st),
                    trace = trace (crawl st)
                      @ [Get (page_num st), Sleep delay, Get (page_num st + 1)]\<rparr>\<rparr>"
    using partition_no_raw_records [where server = server and st = ?st1 and data = d2
        and ex = ex and delay = delay and fuel = fuel] assms(4,5)
    by (simp add: numeral_2_eq_2)
  finally show ?thesis .
qed

section \<open>The empty streak\<close>

lemma no_identifier_rejected:
  "extract_stamp_data py Map.empty ids = (Inl NoIdentifier, ids)"
  "extract_stamp_data_category py Map.empty c ids = (Inl NoIdentifier, ids)"
  "extract_stamp_data_condition py Map.empty c ids = (Inl NoIdentifier, ids)"
  "extract_stamp_data_html (html_norway\<lparr>data_product_id := None\<rparr>) ids = (Inl NoIdentifier, ids)"
  by (simp_all add: extract_stamp_data_def extract_stamp_data_category_def
      extract_stamp_data_condition_def extract_stamp_data_html_def get_default_def py_or_def
      Let_def)

lemmas loop_defs =
  scrape_category_def scrape_condition_def scrape_partition_loop.simps(2) request_def sleep_def
  on_exception_def shop_rejected_def shop_throttled_def no_records_def one_rejected_record_def
  fresh_def no_identifier_rejected Let_def

text \<open>
  C7, as claimed: in the category strategy two consecutive batches without an accepted
  record end the run. The first shop serves three batches of one record each, none
  accepted: after two iterations the category run has not ended, and it goes on to
  request the pages 3, 4 and 5, where it ends on the second batch without any raw record.
\<close>

theorem C7_category_streak_ignores_rejected_records:
  "scrape_category no_floats shop_rejected ''Worldwide>Africa'' 1 (Suc (Suc 0)) fresh = None
   \<and> scrape_category no_floats shop_rejected ''Worldwide>Africa'' 1
       (Suc (Suc (Suc (Suc (Suc 0))))) fresh =
     Some \<lparr>page_num = 5, total_scraped = 0, consecutive_empty = 2,
           crawl = \<lparr>nreq = 5, seen = {},
                    trace = [Get 1, Sleep 1, Get 2, Sleep 1, Get 3, Sleep 1, Get 4, Sleep 1,
                             Get 5]\<rparr>\<rparr>"
  by (simp add: loop_defs)

text \<open>
  C7, amended. In the plain strategies (\<open>scrape_all\<close> of the API scraper and of the
  HTML scraper, the loop \<open>scrape_all_loop\<close> over their \<open>scrape_page\<close>) three consecutive
  batches without an accepted record, counted from a streak of zero and below the page
  limit, end the run after the third batch; a batch whose raw records are all rejected
  is such a batch. In the category and condition strategies (the loop
  \<open>scrape_partition_loop\<close> over their extractor) the streak counts batches without raw
  records: a batch with raw records sets it to zero, whether or not a record is
  accepted, and the run goes on while the pagination has pages left; two consecutive
  batches without raw records, counted from a streak of zero, end the run.
\<close>

theorem C7_empty_streak:
  "(consecutive_empty st = 0 \<and> \<not> limit_reached mp (page_num st + 2)
      \<and> sp (page_num st) (crawl st) = ([], c1)
      \<and> sp (page_num st + 1) (sleep delay c1) = ([], c2)
      \<and> sp (page_num st + 2) (sleep delay c2) = ([], c3)
    \<longrightarrow> scrape_all_loop sp delay mp (Suc (Suc (Suc fuel))) st =
          Some \<lparr>page_num = page_num st + 2, total_scraped = total_scraped st,
                consecutive_empty = 3, crawl = c3\<rparr>)
   \<and> (server (nreq c) = Response 200 (Some data)
      \<and> (\<forall>r \<in> set (results data). isl (fst (extract_stamp_data py r (seen c))))
    \<longrightarrow> scrape_page py server p c =
          ([], \<lparr>nreq = nreq c + 1, seen = seen c, trace = trace c @ [Get p]\<rparr>))
   \<and> (hserver (nreq c) = Response 200 listings
      \<and> (\<forall>l \<in> set listings. isl (fst (extract_stamp_data_html l (seen c))))
    \<longrightarrow> scrape_page_html hserver p c =
          ([], \<lparr>nreq = nreq c + 1, seen = seen c, trace = trace c @ [Get p]\<rparr>))
   \<and> (server (nreq (crawl st)) = Response 200 (Some data) \<and> results data \<noteq> []
      \<and> extract_batch ex (results data) (seen (crawl st)) = (stamps, ids)
      \<and> (case currentPage data of None \<Rightarrow> int (page_num st) | Some q \<Rightarrow> q)
          < (case totalPages data of None \<Rightarrow> 0 | Some t \<Rightarrow> t)
    \<longrightarrow> scrape_partition_loop ex server delay (Suc fuel) st =
          scrape_partition_loop ex server delay fuel
            \<lparr>page_num = page_num st + 1, total_scraped = total_scraped st + length stamps,
             consecutive_empty = 0,
             crawl = \<lparr>nreq = nreq (crawl st) + 1, seen = ids,
                      trace = trace (crawl st) @ [Get (page_num st), Sleep delay]\<rparr>\<rparr>)
   \<and> (consecutive_empty st = 0
      \<and> server (nreq (crawl st)) = Response 200 (Some d1) \<and> results d1 = []
      \<and> server (Suc (nreq (crawl st))) = Response 200 (Some d2) \<and> results d2 = []
    \<longrightarrow> scrape_partition_loop ex server delay (Suc (Suc fuel)) st =
          Some \<lparr>page_num = page_num st + 1, total_scraped = total_scraped st,
                consecutive_empty = 2,
                crawl = \<lparr>nreq = nreq (crawl st) + 2, seen = seen (crawl st),
                         trace = trace (crawl st)
                           @ [Get (page_num st), Sleep delay, Get (page_num st + 1)]\<rparr>\<rparr>)"
  using three_empty_batches [of st mp sp c1 delay c2 c3 fuel]
    scrape_page_all_rejected [of server c data py p]
    scrape_page_html_all_rejected [of hserver c listings p]
    partition_raw_records [where server = server and st = st and data = data and ex = ex
      and stamps = stamps and ids = ids and delay = delay and fuel = fuel]
    two_batches_without_raw_records [where server = server and st = st and ?d1.0 = d1
      and ?d2.0 = d2 and ex = ex and delay = delay and fuel = fuel]
  by blast

theorem C7_empty_streak_witness:
  "scrape_page no_floats shop_rejected 1 fresh =
     ([], \<lparr>nreq = 1, seen = {}, trace = [Get 1]\<rparr>)
   \<and> scrape_all no_floats shop_rejected 1 None (Suc (Suc (Suc 0))) =
     Some \<lparr>page_num = 3, total_scraped = 0, consecutive_empty = 3,
           crawl = \<lparr>nreq = 3, seen = {},
                    trace = [Get 1, Sleep 1, Get 2, Sleep 1, Get 3]\<rparr>\<rparr>
   \<and> scrape_page_html html_shop_rejected 1 fresh =
     ([], \<lparr>nreq = 1, seen = {}, trace = [Get 1]\<rparr>)
   \<and> scrape_category no_floats shop_rejected ''Worldwide>Africa'' 1 (Suc 0) fresh =
     scrape_partition_loop (\<lambda>r. extract_stamp_data_category no_floats r ''Worldwide>Africa'')
       shop_rejected 1 0
       \<lparr>page_num = 2, total_scraped = 0, consecutive_empty = 0,
        crawl = \<lparr>nreq = 1, seen = {}, trace = [Get 1, Sleep 1]\<rparr>\<rparr>
   \<and> scrape_condition no_floats (\<lambda>k. Response 200 (Some no_records)) ''Used'' 1 (Suc (Suc 0)) fresh =
     Some \<lparr>page_num = 2, total_scraped = 0, consecutive_empty = 2,
           crawl = \<lparr>nreq = 2, seen = {}, trace = [Get 1, Sleep 1, Get 2]\<rparr>\<rparr>"
proof -
  note t1 = C7_empty_streak [THEN conjunct1, rule_format]
  note t2 = C7_empty_streak [THEN conjunct2, THEN conjunct1, rule_format]
  note t3 = C7_empty_streak [THEN conjunct2, THEN conjunct2, THEN conjunct1, rule_format]
  note t4 = C7_empty_streak
    [THEN conjunct2, THEN conjunct2, THEN conjunct2, THEN conjunct1, rule_format]
  note t5 = C7_empty_streak
    [THEN conjunct2, THEN conjunct2, THEN conjunct2, THEN conjunct2, rule_format]
  let ?c1 = "\<lparr>nreq = 1, seen = {}, trace = [Get 1]\<rparr>"
  let ?c2 = "\<lparr>nreq = 2, seen = {}, trace = [Get 1, Sleep 1, Get 2]\<rparr>"
  let ?c3 = "\<lparr>nreq = 3, seen = {}, trace = [Get 1, Sleep 1, Get 2, Sleep 1, Get 3]\<rparr>"
  have rej: "\<forall>r \<in> set (results one_rejected_record).
      isl (fst (extract_stamp_data no_floats r ids))" for ids
    by (simp add: one_rejected_record_def no_identifier_rejected)
  have p1: "scrape_page no_floats shop_rejected 1 fresh = ([], ?c1)"
    using t2 [where server = shop_rejected and c = fresh and data = one_rejected_record
        and py = no_floats and p = 1] rej [of "{}"]
    by (simp add: shop_rejected_def fresh_def)
  have p2: "scrape_page no_floats shop_rejected 2 (sleep 1 ?c1) = ([], ?c2)"
    using t2 [where server = shop_rejected and c = "sleep 1 ?c1" and data = one_rejected_record
        and py = no_floats and p = 2] rej [of "{}"]
    by (simp add: shop_rejected_def sleep_def)
  have p3: "scrape_page no_floats shop_rejected 3 (sleep 1 ?c2) = ([], ?c3)"
    using t2 [where server = shop_rejected and c = "sleep 1 ?c2" and data = one_rejected_record
        and py = no_floats and p = 3] rej [of "{}"]
    by (simp add: shop_rejected_def sleep_def)
  have a: "scrape_all no_floats shop_rejected 1 None (Suc (Suc (Suc 0))) =
     Some \<lparr>page_num = 3, total_scraped = 0, consecutive_empty = 3, crawl = ?c3\<rparr>"
    using t1 [where st = start and mp = None and sp = "scrape_page no_floats shop_rejected"
        and ?c1.0 = ?c1 and ?c2.0 = ?c2 and ?c3.0 = ?c3 and delay = 1 and fuel = 0] p1 p2 p3
    by (simp add: scrape_all_def start_def fresh_def limit_reached_def numeral_2_eq_2
        numeral_3_eq_3)
  have h: "scrape_page_html html_shop_rejected 1 fresh = ([], ?c1)"
    using t3 [where hserver = html_shop_rejected and c = fresh
        and listings = "[html_norway\<lparr>data_product_id := None\<rparr>]" and p = 1]
    by (simp add: html_shop_rejected_def fresh_def no_identifier_rejected)
  have b: "scrape_category no_floats shop_rejected ''Worldwide>Africa'' 1 (Suc 0) fresh =
     scrape_partition_loop (\<lambda>r. extract_stamp_data_category no_floats r ''Worldwide>Africa'')
       shop_rejected 1 0
       \<lparr>page_num = 2, total_scraped = 0, consecutive_empty = 0,
        crawl = \<lparr>nreq = 1, seen = {}, trace = [Get 1, Sleep 1]\<rparr>\<rparr>"
    using t4 [where server = shop_rejected and data = one_rejected_record
        and st = "\<lparr>page_num = 1, total_scraped = 0, consecutive_empty = 0, crawl = fresh\<rparr>"
        and ex = "\<lambda>r. extract_stamp_data_category no_floats r ''Worldwide>Africa''"
        and stamps = "[]" and ids = "{}" and delay = 1 and fuel = 0]
    by (simp add: scrape_category_def shop_rejected_def one_rejected_record_def fresh_def
        no_identifier_rejected)
  have c: "scrape_condition no_floats (\<lambda>k. Response 200 (Some no_records)) ''Used'' 1
       (Suc (Suc 0)) fresh =
     Some \<lparr>page_num = 2, total_scraped = 0, consecutive_empty = 2, crawl = ?c2\<rparr>"
    using t5 [where server = "\<lambda>k. Response 200 (Some no_records)" and ?d1.0 = no_records
        and ?d2.0 = no_records
        and st = "\<lparr>page_num = 1, total_scraped = 0, consecutive_empty = 0, crawl = fresh\<rparr>"
        and ex = "\<lambda>r. extract_stamp_data_condition no_floats r ''Used''"
        and delay = 1 and fuel = 0]
    by (simp add: scrape_condition_def no_records_def fresh_def)
  from p1 a h b c show ?thesis by simp
qed

section \<open>Throttling\<close>

text \<open>
  C9, as claimed: in every strategy a throttled request is retried once, after one
  sleep of 30. The second shop throttles the first three requests: the category run
  sleeps three times and asks for page 1 four times, and the streak is not touched by
  the throttled requests.
\<close>

theorem C9_category_retries_without_bound:
  "scrape_category no_floats shop_throttled ''Worldwide>Africa'' 1
       (Suc (Suc (Suc (Suc (Suc 0))))) fresh =
     Some \<lparr>page_num = 2, total_scraped = 0, consecutive_empty = 2,
           crawl = \<lparr>nreq = 5, seen = {},
                    trace = [Get 1, Sleep 30, Get 1, Sleep 30, Get 1, Sleep 30, Get 1, Sleep 1,
                             Get 2]\<rparr>\<rparr>"
  by (simp add: loop_defs)

text \<open>
  C9, amended. In the plain API strategy a throttled request of \<open>scrape_page\<close> is
  followed by one sleep of 30 and one more request for the same page, never more; when
  that one is throttled too the page yields no stamp and leaves the identifiers as they
  were, and the loop counts it into the streak (it stops when the streak was 2, else
  goes on to the next page). In the category and condition strategies every throttled
  request is followed by a sleep of 30 and a request for the same page, as often as the
  shop throttles, and neither the page nor the streak nor the total changes. In the
  plain HTML strategy a throttled request ends the page at once, with no stamp, no sleep
  and no retry.
\<close>

theorem C9_throttling:
  "(server (nreq c) = Response 429 b
    \<longrightarrow> (\<exists>stamps ids. scrape_page py server p c =
          (stamps, \<lparr>nreq = nreq c + 2, seen = ids,
                    trace = trace c @ [Get p, Sleep 30, Get p]\<rparr>)))
   \<and> (server (nreq c) = Response 429 b \<and> server (Suc (nreq c)) = Response 429 b'
    \<longrightarrow> scrape_page py server p c =
          ([], \<lparr>nreq = nreq c + 2, seen = seen c, trace = trace c @ [Get p, Sleep 30, Get p]\<rparr>))
   \<and> (\<not> limit_reached mp (page_num st)
      \<and> server (nreq (crawl st)) = Response 429 b
      \<and> server (Suc (nreq (crawl st))) = Response 429 b'
    \<longrightarrow> scrape_all_loop (scrape_page py server) delay mp (Suc fuel) st =
          (if 2 \<le> consecutive_empty st
           then Some \<lparr>page_num = page_num st, total_scraped = total_scraped st,
                      consecutive_empty = consecutive_empty st + 1,
                      crawl = \<lparr>nreq = nreq (crawl st) + 2, seen = seen (crawl st),
                               trace = trace (crawl st)
                                 @ [Get (page_num st), Sleep 30, Get (page_num st)]\<rparr>\<rparr>
           else scrape_all_loop (scrape_page py server) delay mp fuel
                  \<lparr>page_num = page_num st + 1, total_scraped = total_scraped st,
                   consecutive_empty = consecutive_empty st + 1,
                   crawl = \<lparr>nreq = nreq (crawl st) + 2, seen = seen (crawl st),
                            trace = trace (crawl st)
                              @ [Get (page_num st), Sleep 30, Get (page_num st),
                                 Sleep delay]\<rparr>\<rparr>))
   \<and> ((\<forall>k<n. \<exists>b. server (nreq (crawl st) + k) = Response 429 b)
    \<longrightarrow> scrape_partition_loop ex server delay (n + fuel) st =
          scrape_partition_loop ex server delay fuel
            \<lparr>page_num = page_num st, total_scraped = total_scraped st,
             consecutive_empty = consecutive_empty st,
             crawl = \<lparr>nreq = nreq (crawl st) + n, seen = seen (crawl st),
                      trace = trace (crawl st)
                        @ concat (replicate n [Get (page_num st), Sleep 30])\<rparr>\<rparr>)
   \<and> (hserver (nreq c) = Response 429 listings
    \<longrightarrow> scrape_page_html hserver p c =
          ([], \<lparr>nreq = nreq c + 1, seen = seen c, trace = trace c @ [Get p]\<rparr>))"
proof -
  have counted: "scrape_all_loop (scrape_page py server) delay mp (Suc fuel) st =
          (if 2 \<le> consecutive_empty st
           then Some \<lparr>page_num = page_num st, total_scraped = total_scraped st,
                      consecutive_empty = consecutive_empty st + 1,
                      crawl = \<lparr>nreq = nreq (crawl st) + 2, seen = seen (crawl st),
                               trace = trace (crawl st)
                                 @ [Get (page_num st), Sleep 30, Get (page_num st)]\<rparr>\<rparr>
           else scrape_all_loop (scrape_page py server) delay mp fuel
                  \<lparr>page_num = page_num st + 1, total_scraped = total_scraped st,
                   consecutive_empty = consecutive_empty st + 1,
                   crawl = \<lparr>nreq = nreq (crawl st) + 2, seen = seen (crawl st),
                            trace = trace (crawl st)
                              @ [Get (page_num st), Sleep 30, Get (page_num st),
                                 Sleep delay]\<rparr>\<rparr>)"
    if "\<not> limit_reached mp (page_num st)" and "server (nreq (crawl st)) = Response 429 b"
      and "server (Suc (nreq (crawl st))) = Response 429 b'"
    using scrape_all_loop_empty [OF that(1), of "scrape_page py server" _ delay fuel]
      scrape_page_throttled_twice [OF that(2,3), of py "page_num st"]
    by (simp add: sleep_def)
  show ?thesis
    using scrape_page_throttled [of server c b py p]
      scrape_page_throttled_twice [of server c b b' py p]
      counted
      partition_throttled_repeatedly [of n server st ex delay fuel]
      scrape_page_html_throttled [of hserver c listings p]
    by blast
qed

theorem C9_throttling_witness:
  "shop_throttled 0 = Response 429 None \<and> shop_throttled 1 = Response 429 None
   \<and> (\<exists>stamps ids. scrape_page no_floats shop_throttled 7 fresh =
         (stamps, \<lparr>nreq = 2, seen = ids, trace = [Get 7, Sleep 30, Get 7]\<rparr>))
   \<and> scrape_page no_floats shop_throttled 1 fresh =
       ([], \<lparr>nreq = 2, seen = {}, trace = [Get 1, Sleep 30, Get 1]\<rparr>)
   \<and> scrape_all no_floats shop_throttled 1 None (Suc (Suc (Suc 0))) =
       Some \<lparr>page_num = 3, total_scraped = 0, consecutive_empty = 3,
             crawl = \<lparr>nreq = 5, seen = {},
                      trace = [Get 1, Sleep 30, Get 1, Sleep 1, Get 2, Sleep 30, Get 2, Sleep 1,
                               Get 3]\<rparr>\<rparr>
   \<and> scrape_condition no_floats shop_throttled ''Used'' 1 (3 + Suc (Suc 0)) fresh =
       Some \<lparr>page_num = 2, total_scraped = 0, consecutive_empty = 2,
             crawl = \<lparr>nreq = 5, seen = {},
                      trace = [Get 1, Sleep 30, Get 1, Sleep 30, Get 1, Sleep 30, Get 1, Sleep 1,
                               Get 2]\<rparr>\<rparr>
   \<and> scrape_page_html html_shop_throttled 1 fresh =
       ([], \<lparr>nreq = 1, seen = {}, trace = [Get 1]\<rparr>)"
proof -
  note t1 = C9_throttling [THEN conjunct1, rule_format]
  note t2 = C9_throttling [THEN conjunct2, THEN conjunct1, rule_format]
  note t3 = C9_throttling [THEN conjunct2, THEN conjunct2, THEN conjunct1, rule_format]
  note t4 = C9_throttling
    [THEN conjunct2, THEN conjunct2, THEN conjunct2, THEN conjunct1, rule_format]
  note t5 = C9_throttling
    [THEN conjunct2, THEN conjunct2, THEN conjunct2, THEN conjunct2, rule_format]
  have h: "shop_throttled 0 = Response 429 None" "shop_throttled 1 = Response 429 None"
    "shop_throttled (Suc 0) = Response 429 None"
    by (simp_all add: shop_throttled_def)
  have e: "\<exists>stamps ids. scrape_page no_floats shop_throttled 7 fresh =
         (stamps, \<lparr>nreq = 2, seen = ids, trace = [Get 7, Sleep 30, Get 7]\<rparr>)"
    using t1 [where server = shop_throttled and c = fresh and b = None and py = no_floats
        and p = 7] h
    by (simp add: fresh_def numeral_2_eq_2)
  have a: "scrape_page no_floats shop_throttled 1 fresh =
       ([], \<lparr>nreq = 2, seen = {}, trace = [Get 1, Sleep 30, Get 1]\<rparr>)"
    using t2 [where server = shop_throttled and c = fresh and b = None and b' = None
        and py = no_floats and p = 1] h
    by (simp add: fresh_def)
  have b: "scrape_all no_floats shop_throttled 1 None (Suc (Suc (Suc 0))) =
       Some \<lparr>page_num = 3, total_scraped = 0, consecutive_empty = 3,
             crawl = \<lparr>nreq = 5, seen = {},
                      trace = [Get 1, Sleep 30, Get 1, Sleep 1, Get 2, Sleep 30, Get 2, Sleep 1,
                               Get 3]\<rparr>\<rparr>"
    using t3 [where server = shop_throttled and st = start and b = None and b' = None
        and py = no_floats and mp = None and delay = 1 and fuel = "Suc (Suc 0)"] h
    by (simp add: scrape_all_def start_def limit_reached_def scrape_all_loop.simps(2)
        scrape_page_def read_page_def raises_for_status_def request_def sleep_def
        shop_throttled_def no_records_def Let_def)
  have "\<forall>k<3. \<exists>b. shop_throttled (0 + k) = Response 429 b"
    by (simp add: shop_throttled_def)
  then have c: "scrape_condition no_floats shop_throttled ''Used'' 1 (3 + Suc (Suc 0)) fresh =
       Some \<lparr>page_num = 2, total_scraped = 0, consecutive_empty = 2,
             crawl = \<lparr>nreq = 5, seen = {},
                      trace = [Get 1, Sleep 30, Get 1, Sleep 30, Get 1, Sleep 30, Get 1, Sleep 1,
                               Get 2]\<rparr>\<rparr>"
    using t4 [where server = shop_throttled and n = 3 and fuel = "Suc (Suc 0)"
        and st = "\<lparr>page_num = 1, total_scraped = 0, consecutive_empty = 0, crawl = fresh\<rparr>"
        and ex = "\<lambda>r. extract_stamp_data_condition no_floats r ''Used''" and delay = 1]
    by (simp add: loop_defs numeral_3_eq_3)
  have d: "scrape_page_html html_shop_throttled 1 fresh =
       ([], \<lparr>nreq = 1, seen = {}, trace = [Get 1]\<rparr>)"
    using t5 [where hserver = html_shop_throttled and c = fresh and listings = "[]" and p = 1]
    by (simp add: html_shop_throttled_def fresh_def)
  from h e a b c d show ?thesis by simp
qed


end
